theory Spec2Isabelle
  imports Complex_Main "HOL-Library.Sublist"
begin

section \<open>Python values and dictionaries\<close>

text \<open>
  The auditor stores every result in nested Python dictionaries. A dictionary is an
  association list in insertion order with unique keys; \<open>d[k] = v\<close> overwrites the value
  of a key that is present and appends a new key at the end.
\<close>

datatype pyval =
    PNone
  | PBool bool
  | PInt int
  | PNum rat
  | PStr string
  | PList "pyval list"
  | PDict "(string \<times> pyval) list"

type_synonym pydict = "(string \<times> pyval) list"

definition dict_get :: "pydict \<Rightarrow> string \<Rightarrow> pyval option" where
  "dict_get d k = map_of d k"

definition dict_has :: "pydict \<Rightarrow> string \<Rightarrow> bool" where
  "dict_has d k = (case map_of d k of None \<Rightarrow> False | Some v \<Rightarrow> True)"

fun dict_set :: "string \<Rightarrow> 'v \<Rightarrow> (string \<times> 'v) list \<Rightarrow> (string \<times> 'v) list" where
  "dict_set k v [] = [(k, v)]"
| "dict_set k v ((k', v') # d) = (if k' = k then (k, v) # d else (k', v') # dict_set k v d)"

definition dict_values :: "(string \<times> 'v) list \<Rightarrow> 'v list" where
  "dict_values d = map snd d"

text \<open>
  An exception is a value: \<open>Inl msg\<close> is a raised \<open>Exception\<close> whose \<open>str(e)\<close> is
  \<open>msg\<close>, \<open>Inr v\<close> is a normal return.
\<close>

type_synonym 'a outcome = "string + 'a"

section \<open>The audit report\<close>

text \<open>
  \<open>self.audit_results\<close> of \<open>SEOAuditor\<close>. The keys \<open>scores\<close> and \<open>error\<close> are
  absent (\<open>None\<close>) until \<open>_calculate_scores\<close>, respectively the handler of
  \<open>audit_website\<close>, stores them.
\<close>

record audit_report =
  url :: string
  domain :: string
  audit_timestamp :: string
  technical_seo :: pydict
  on_page_seo :: pydict
  off_page_seo :: pydict
  user_experience :: pydict
  security_performance :: pydict
  pagespeed_insights :: pydict
  scores :: "(string \<times> rat) list option"
  error :: "string option"

section \<open>Score aggregation: \<open>_calculate_scores\<close>\<close>

text \<open>
  Python's \<open>round(x, 1)\<close>: the nearest multiple of one tenth, a tie going to the even
  tenth. Scores are modelled as exact rationals; the float quotient of the source rounds
  to the same tenth whenever the exact quotient is a tie that is a binary fraction or is
  no tie at all, which covers every quotient \<open>50 * k / n\<close> with fewer than 125 items.
\<close>

definition py_round1 :: "rat \<Rightarrow> rat" where
  "py_round1 x =
     (let y = x * 10; f = \<lfloor>y\<rfloor>; d = y - of_int f
      in of_int (if d < 1 / 2 then f else if 1 / 2 < d then f + 1
                 else if even f then f else f + 1) / 10)"

text \<open>\<open>isinstance(value, dict) and 'status' in value\<close>\<close>

fun has_status :: "pyval \<Rightarrow> bool" where
  "has_status (PDict d) = dict_has d ''status''"
| "has_status v = False"

text \<open>
  The two branches of the loop body: \<open>good\<close> adds 100, \<open>needs_improvement\<close> adds 50,
  any other status adds nothing.
\<close>

fun status_points :: "pyval \<Rightarrow> int" where
  "status_points (PDict d) =
     (if dict_get d ''status'' = Some (PStr ''good'') then 100
      else if dict_get d ''status'' = Some (PStr ''needs_improvement'') then 50
      else 0)"
| "status_points v = 0"

text \<open>
  The loop \<open>for key, value in technical.items()\<close>, with the accumulators
  \<open>(tech_score, tech_items)\<close>.
\<close>

fun score_loop :: "pydict \<Rightarrow> int \<times> nat \<Rightarrow> int \<times> nat" where
  "score_loop [] acc = acc"
| "score_loop ((key, v) # rest) (tech_score, tech_items) =
     (if has_status v
      then score_loop rest (tech_score + status_points v, tech_items + 1)
      else score_loop rest (tech_score, tech_items))"

definition initial_scores :: "(string \<times> rat) list" where
  "initial_scores =
     [(''technical_seo_score'', 0), (''on_page_seo_score'', 0), (''off_page_seo_score'', 0),
      (''user_experience_score'', 0), (''security_performance_score'', 0),
      (''overall_score'', 0)]"

text \<open>
  \<open>round(sum(scores.values()) / len([s for s in scores.values() if s > 0])
    if any(scores.values()) else 0, 1)\<close>
\<close>

definition overall_of :: "(string \<times> rat) list \<Rightarrow> rat" where
  "overall_of sc =
     py_round1 (if list_ex (\<lambda>s. s \<noteq> 0) (dict_values sc)
                then sum_list (dict_values sc)
                       / of_nat (length (filter (\<lambda>s. 0 < s) (dict_values sc)))
                else 0)"

text \<open>
  Only the technical category is tallied; the other four entries keep their initial 0
  (the source's comment at that place reads ``Similar calculations for other
  categories...''). Nothing in the guarded block raises on a report of dictionaries, so
  the \<open>calculation_error\<close> entry is never written.
\<close>

definition calculate_scores :: "audit_report \<Rightarrow> audit_report" where
  "calculate_scores r =
     (let (tech_score, tech_items) = score_loop (technical_seo r) (0, 0);
          sc1 = dict_set ''technical_seo_score''
                  (py_round1 (if 0 < tech_items then of_int tech_score / of_nat tech_items else 0))
                  initial_scores;
          sc2 = dict_set ''overall_score'' (overall_of sc1) sc1
      in r\<lparr>scores := Some sc2\<rparr>)"

definition score_of :: "audit_report \<Rightarrow> string \<Rightarrow> rat option" where
  "score_of r k = (case scores r of None \<Rightarrow> None | Some sc \<Rightarrow> map_of sc k)"

subsection \<open>The aggregation rule as the specification words it\<close>

text \<open>
  The points of the findings that carry a status, their mean (0 when there is none),
  and the mean of the category scores that are strictly positive.
\<close>

definition spec_points :: "pydict \<Rightarrow> int list" where
  "spec_points cat = map status_points (filter has_status (dict_values cat))"

definition spec_category_score :: "pydict \<Rightarrow> rat" where
  "spec_category_score cat =
     (if spec_points cat = [] then 0
      else of_int (sum_list (spec_points cat)) / of_nat (length (spec_points cat)))"

definition spec_overall :: "rat list \<Rightarrow> rat" where
  "spec_overall cs =
     (if filter (\<lambda>s. 0 < s) cs = [] then 0
      else sum_list (filter (\<lambda>s. 0 < s) cs) / of_nat (length (filter (\<lambda>s. 0 < s) cs)))"


section \<open>The parsed document\<close>

text \<open>
  The tree that \<open>BeautifulSoup(response.content, 'html.parser')\<close> builds: a tag with its
  name, its attributes in source order and its children, or a string. \<open>self.soup\<close> is the
  list of the top-level nodes.
\<close>

datatype node =
    NavigableString string
  | Tag string "(string \<times> string) list" "node list"

type_synonym soup = "node list"

fun descendants :: "node \<Rightarrow> node list" where
  "descendants (NavigableString s) = []"
| "descendants (Tag n as cs) = concat (map (\<lambda>c. c # descendants c) cs)"

definition soup_descendants :: "soup \<Rightarrow> node list" where
  "soup_descendants sp = concat (map (\<lambda>c. c # descendants c) sp)"

fun tag_name :: "node \<Rightarrow> string option" where
  "tag_name (NavigableString s) = None"
| "tag_name (Tag n as cs) = Some n"

text \<open>\<open>tag.get(key)\<close>; a string has no attributes.\<close>

fun tag_get :: "node \<Rightarrow> string \<Rightarrow> string option" where
  "tag_get (NavigableString s) k = None"
| "tag_get (Tag n as cs) k = map_of as k"

text \<open>
  \<open>find_all\<close> walks the descendants in document order and keeps the tags that match;
  \<open>find\<close> is its first result.
\<close>

definition find_all :: "(node \<Rightarrow> bool) \<Rightarrow> soup \<Rightarrow> node list" where
  "find_all p sp = filter (\<lambda>n. tag_name n \<noteq> None \<and> p n) (soup_descendants sp)"

definition find_first :: "(node \<Rightarrow> bool) \<Rightarrow> soup \<Rightarrow> node option" where
  "find_first p sp = (case find_all p sp of [] \<Rightarrow> None | n # ns \<Rightarrow> Some n)"

definition named :: "string \<Rightarrow> node \<Rightarrow> bool" where
  "named nm n = (tag_name n = Some nm)"

definition has_attr :: "string \<Rightarrow> node \<Rightarrow> bool" where
  "has_attr k n = (case tag_get n k of None \<Rightarrow> False | Some v \<Rightarrow> True)"

definition attr_is :: "string \<Rightarrow> string \<Rightarrow> node \<Rightarrow> bool" where
  "attr_is k v n = (tag_get n k = Some v)"

text \<open>\<open>get_text()\<close>: the strings below a node, concatenated in document order.\<close>

fun get_text :: "node \<Rightarrow> string" where
  "get_text (NavigableString s) = s"
| "get_text (Tag n as cs) = concat (map get_text cs)"

definition soup_get_text :: "soup \<Rightarrow> string" where
  "soup_get_text sp = concat (map get_text sp)"

text \<open>
  \<open>tag.string\<close>: the string of a tag whose only child is a string, or the \<open>.string\<close>
  of its only child; \<open>None\<close> otherwise.
\<close>

fun tag_string :: "node \<Rightarrow> string option" where
  "tag_string (NavigableString s) = Some s"
| "tag_string (Tag n as [c]) = tag_string c"
| "tag_string (Tag n as cs) = None"

text \<open>
  \<open>for t in self.soup(names): t.decompose()\<close> removes every tag with one of the names,
  with everything below it, from the tree.
\<close>

definition is_named_in :: "string list \<Rightarrow> node \<Rightarrow> bool" where
  "is_named_in names n = (case tag_name n of None \<Rightarrow> False | Some nm \<Rightarrow> List.member names nm)"

fun decompose_in :: "string list \<Rightarrow> node \<Rightarrow> node" where
  "decompose_in names (NavigableString s) = NavigableString s"
| "decompose_in names (Tag n as cs) =
     Tag n as (map (decompose_in names) (filter (\<lambda>c. \<not> is_named_in names c) cs))"

definition decompose_all :: "string list \<Rightarrow> soup \<Rightarrow> soup" where
  "decompose_all names sp = map (decompose_in names) (filter (\<lambda>c. \<not> is_named_in names c) sp)"

subsection \<open>\<open>str(soup)\<close>\<close>

text \<open>
  The serialisation with the default (minimal) formatter: \<open>&\<close>, \<open><\<close> and \<open>>\<close> become
  entities in strings and attribute values, except in a string whose parent is a
  \<open>script\<close> or \<open>style\<close> tag; an attribute value is quoted with double quotes, with
  single quotes when it holds a double quote and no single quote; a void element is
  written \<open><name .../>\<close>.
\<close>

fun escape_char :: "char \<Rightarrow> string" where
  "escape_char c =
     (if c = CHR ''&'' then ''&amp;'' else if c = CHR ''<'' then ''&lt;''
      else if c = CHR ''>'' then ''&gt;'' else [c])"

definition escape_text :: "string \<Rightarrow> string" where
  "escape_text s = concat (map escape_char s)"

definition quoted_attribute_value :: "string \<Rightarrow> string" where
  "quoted_attribute_value v =
     (if List.member v (CHR 0x22) then
        (if List.member v (CHR 0x27)
         then [CHR 0x22] @ concat (map (\<lambda>c. if c = CHR 0x22 then ''&quot;'' else [c]) v) @ [CHR 0x22]
         else [CHR 0x27] @ v @ [CHR 0x27])
      else [CHR 0x22] @ v @ [CHR 0x22])"

definition void_elements :: "string list" where
  "void_elements = [''area'', ''base'', ''br'', ''col'', ''embed'', ''hr'', ''img'', ''input'',
     ''keygen'', ''link'', ''menuitem'', ''meta'', ''param'', ''source'', ''track'', ''wbr'']"

definition decode_attrs :: "(string \<times> string) list \<Rightarrow> string" where
  "decode_attrs as =
     concat (map (\<lambda>(k, v). '' '' @ k @ ''='' @ quoted_attribute_value (escape_text v)) as)"

fun decode :: "bool \<Rightarrow> node \<Rightarrow> string" where
  "decode raw (NavigableString s) = (if raw then s else escape_text s)"
| "decode raw (Tag n as cs) =
     (if List.member void_elements n then ''<'' @ n @ decode_attrs as @ ''/>''
      else ''<'' @ n @ decode_attrs as @ ''>''
           @ concat (map (decode (List.member [''script'', ''style''] n)) cs)
           @ ''</'' @ n @ ''>'')"

definition str_soup :: "soup \<Rightarrow> string" where
  "str_soup sp = concat (map (decode False) sp)"

section \<open>String helpers\<close>

definition startswith :: "string \<Rightarrow> string \<Rightarrow> bool" where
  "startswith s p = prefix p s"

definition startswith_any :: "string \<Rightarrow> string list \<Rightarrow> bool" where
  "startswith_any s ps = list_ex (startswith s) ps"

text \<open>\<open>needle in haystack\<close> on strings.\<close>

definition str_in :: "string \<Rightarrow> string \<Rightarrow> bool" where
  "str_in needle haystack = sublist needle haystack"

text \<open>\<open>len(re.findall(pat, s))\<close> for a literal pattern: the matches found left to right,
  each search resuming after the previous match.\<close>

fun count_matches :: "string \<Rightarrow> string \<Rightarrow> nat" where
  "count_matches pat [] = 0"
| "count_matches pat (c # cs) =
     (if pat \<noteq> [] \<and> prefix pat (c # cs)
      then Suc (count_matches pat (drop (length pat - 1) cs))
      else count_matches pat cs)"

text \<open>The characters \<open>str.split()\<close> and \<open>str.strip()\<close> treat as white space, among the
  ASCII ones.\<close>

definition is_space :: "char \<Rightarrow> bool" where
  "is_space c = List.member [CHR 0x09, CHR 0x0A, CHR 0x0B, CHR 0x0C, CHR 0x0D,
                             CHR 0x1C, CHR 0x1D, CHR 0x1E, CHR 0x1F, CHR 0x20] c"

fun split_acc :: "string \<Rightarrow> string \<Rightarrow> string list" where
  "split_acc [] cur = (if cur = [] then [] else [cur])"
| "split_acc (c # cs) cur =
     (if is_space c then (if cur = [] then split_acc cs [] else cur # split_acc cs [])
      else split_acc cs (cur @ [c]))"

definition py_split :: "string \<Rightarrow> string list" where
  "py_split s = split_acc s []"

text \<open>\<open>re.split(r'[.!?]+', text)\<close>: the pieces between the maximal runs of terminators.\<close>

definition is_terminator :: "char \<Rightarrow> bool" where
  "is_terminator c = List.member [CHR ''.'', CHR ''!'', CHR ''?''] c"

fun re_split_acc :: "string \<Rightarrow> string \<Rightarrow> bool \<Rightarrow> string list" where
  "re_split_acc [] cur in_run = [cur]"
| "re_split_acc (c # cs) cur in_run =
     (if is_terminator c
      then (if in_run then re_split_acc cs [] True else cur # re_split_acc cs [] True)
      else re_split_acc cs (cur @ [c]) False)"

definition re_split_sentences :: "string \<Rightarrow> string list" where
  "re_split_sentences s = re_split_acc s [] False"

text \<open>\<open>bool(s.strip())\<close>\<close>

definition nonblank :: "string \<Rightarrow> bool" where
  "nonblank s = list_ex (\<lambda>c. \<not> is_space c) s"


section \<open>Text and numbers\<close>

definition py_strip :: "string \<Rightarrow> string" where
  "py_strip s = rev (dropWhile is_space (rev (dropWhile is_space s)))"

text \<open>\<open>str.lower()\<close> on ASCII letters.\<close>

definition py_lower :: "string \<Rightarrow> string" where
  "py_lower s =
     map (\<lambda>c. let n = (of_char c :: nat) in if 65 \<le> n \<and> n \<le> 90 then char_of (n + 32) else c) s"

text \<open>\<open>s.split(sep)\<close> for a separator of one character.\<close>

fun split_char :: "char \<Rightarrow> string \<Rightarrow> string \<Rightarrow> string list" where
  "split_char sep [] cur = [cur]"
| "split_char sep (c # cs) cur =
     (if c = sep then cur # split_char sep cs [] else split_char sep cs (cur @ [c]))"

definition digit_char :: "nat \<Rightarrow> char" where
  "digit_char d = char_of (48 + d)"

fun str_nat :: "nat \<Rightarrow> string" where
  "str_nat n = (if n < 10 then [digit_char n] else str_nat (n div 10) @ [digit_char (n mod 10)])"

text \<open>
  Python's floats are IEEE doubles. \<open>py_float q\<close> is the double nearest to \<open>q\<close>, a tie
  going to the even mantissa (for values in the normal range); a true division or a
  product of floats is the exact result rounded this way. \<open>round(x, 1)\<close> then rounds the
  exact value of the double, which \<open>py_round1\<close> does.
\<close>

function bit_length :: "int \<Rightarrow> int" where
  "bit_length n = (if n \<le> 0 then 0 else 1 + bit_length (n div 2))"
  by pat_completeness auto
termination
  by (relation "measure nat") auto

definition pow2 :: "int \<Rightarrow> rat" where
  "pow2 k = (if 0 \<le> k then 2 ^ nat k else 1 / 2 ^ nat (- k))"

definition floor_log2 :: "rat \<Rightarrow> int" where
  "floor_log2 a =
     (let (n, d) = quotient_of a;
          k = bit_length n - bit_length d
      in if pow2 k \<le> a then k else k - 1)"

definition round_half_even :: "rat \<Rightarrow> int" where
  "round_half_even y =
     (let f = \<lfloor>y\<rfloor>; d = y - of_int f
      in if d < 1 / 2 then f else if 1 / 2 < d then f + 1 else if even f then f else f + 1)"

definition py_float :: "rat \<Rightarrow> rat" where
  "py_float q =
     (if q = 0 then 0
      else (let a = \<bar>q\<bar>; e = floor_log2 a - 52
            in (if q < 0 then - 1 else 1) * of_int (round_half_even (a / pow2 e)) * pow2 e))"

definition float_div :: "rat \<Rightarrow> rat \<Rightarrow> rat" where
  "float_div a b = py_float (a / b)"

definition float_mul :: "rat \<Rightarrow> rat \<Rightarrow> rat" where
  "float_mul a b = py_float (a * b)"

definition float_add :: "rat \<Rightarrow> rat \<Rightarrow> rat" where
  "float_add a b = py_float (a + b)"

section \<open>The world outside the auditor\<close>

text \<open>
  What the auditor obtains from the network, the clock and its libraries. Each call either
  returns or raises. A response carries, besides its status, headers and text, the tree
  that \<open>BeautifulSoup(response.content, 'html.parser')\<close> builds from its body and the
  value of its \<open>elapsed\<close> attribute.
\<close>

record response =
  status_code :: int
  headers :: "(string \<times> string) list"
  resp_text :: string
  parsed :: soup
  elapsed :: pyval

text \<open>
  \<open>session_get\<close> and \<open>session_head\<close> are the two requests of \<open>self.session\<close>;
  \<open>urljoin\<close> and \<open>json_loads\<close> are the library functions;
  \<open>check_ssl_certificate\<close> is the outcome of the
  handshake of \<open>_check_ssl_certificate\<close>, which catches every failure itself; \<open>whois\<close>
  is the lookup of \<open>_get_domain_info\<close> with the age in days computed from the creation
  date (\<open>None\<close> without one) and the registrar; \<open>pagespeed_data\<close> is the request,
  decoding and extraction inside the \<open>try\<close> of \<open>_get_pagespeed_data\<close> for a URL and a
  strategy; \<open>response_time_measured\<close> is the difference of the two clock readings of the
  response-time check.
\<close>

record world =
  session_get :: "string \<Rightarrow> response outcome"
  session_head :: "string \<Rightarrow> int outcome"
  urljoin :: "string \<Rightarrow> string \<Rightarrow> string outcome"
  json_loads :: "string \<Rightarrow> pyval outcome"
  check_ssl_certificate :: "string \<Rightarrow> bool"
  whois :: "string \<Rightarrow> (int option \<times> pyval) outcome"
  pagespeed_data :: "string \<Rightarrow> string \<Rightarrow> pydict outcome"
  response_time_measured :: rat
  now_isoformat :: string

section \<open>Analyzers\<close>

definition opt_str :: "string option \<Rightarrow> pyval" where
  "opt_str v = (case v of None \<Rightarrow> PNone | Some s \<Rightarrow> PStr s)"

text \<open>\<open>tag.get(key, '')\<close>\<close>

definition tag_get_or_empty :: "node \<Rightarrow> string \<Rightarrow> string" where
  "tag_get_or_empty n k = (case tag_get n k of None \<Rightarrow> [] | Some v \<Rightarrow> v)"

text \<open>\<open>bool(tag.get(key))\<close>: the attribute is present and not empty.\<close>

definition attr_truthy :: "string \<Rightarrow> node \<Rightarrow> bool" where
  "attr_truthy k n = (tag_get_or_empty n k \<noteq> [])"

text \<open>\<open>tag.find_all(...)\<close> below one tag.\<close>

definition tag_find_all :: "(node \<Rightarrow> bool) \<Rightarrow> node \<Rightarrow> node list" where
  "tag_find_all p n = filter (\<lambda>m. tag_name m \<noteq> None \<and> p m) (descendants n)"

text \<open>\<open>headers.get(name)\<close> on the case-insensitive dictionary of a response.\<close>

definition header_get :: "(string \<times> string) list \<Rightarrow> string \<Rightarrow> string option" where
  "header_get hs k = map_of (map (\<lambda>(a, b). (py_lower a, b)) hs) (py_lower k)"

definition header_get_or_empty :: "(string \<times> string) list \<Rightarrow> string \<Rightarrow> string" where
  "header_get_or_empty hs k = (case header_get hs k of None \<Rightarrow> [] | Some v \<Rightarrow> v)"

subsection \<open>The checks of \<open>_audit_technical_seo\<close>\<close>

definition response_time :: "world \<Rightarrow> pydict" where
  "response_time w =
     (let rt = response_time_measured w
      in [(''value'', PNum rt),
          (''status'',
             PStr (if rt < 1 then ''good'' else if rt < 3 then ''needs_improvement'' else ''poor'')),
          (''recommendation'',
             PStr (if 1 < rt then ''Optimize server response time'' else ''Good response time''))])"

definition https_ssl :: "world \<Rightarrow> string \<Rightarrow> pydict" where
  "https_ssl w target =
     (let is_https = startswith target ''https://''
      in [(''is_https'', PBool is_https),
          (''ssl_valid'', PBool (check_ssl_certificate w target)),
          (''status'', PStr (if is_https then ''good'' else ''poor'')),
          (''recommendation'',
             PStr (if \<not> is_https then ''Ensure HTTPS is properly implemented''
                   else ''HTTPS properly implemented''))])"

definition mobile_friendly :: "soup \<Rightarrow> pydict" where
  "mobile_friendly sp =
     (let viewport_meta = find_first (\<lambda>n. named ''meta'' n \<and> attr_is ''name'' ''viewport'' n) sp;
          has_viewport = (viewport_meta \<noteq> None)
      in [(''has_viewport_meta'', PBool has_viewport),
          (''viewport_content'',
             (case viewport_meta of None \<Rightarrow> PNone | Some m \<Rightarrow> opt_str (tag_get m ''content''))),
          (''status'', PStr (if has_viewport then ''good'' else ''poor'')),
          (''recommendation'',
             PStr (if \<not> has_viewport then ''Add viewport meta tag for mobile optimization''
                   else ''Viewport meta tag found''))])"

definition indexability :: "soup \<Rightarrow> pydict" where
  "indexability sp =
     (let robots_meta = find_first (\<lambda>n. named ''meta'' n \<and> attr_is ''name'' ''robots'' n) sp;
          robots_content =
            (case robots_meta of None \<Rightarrow> [] | Some m \<Rightarrow> py_lower (tag_get_or_empty m ''content''));
          noindex = str_in ''noindex'' robots_content;
          nofollow = str_in ''nofollow'' robots_content
      in [(''robots_meta_tag'', PStr (if robots_content \<noteq> [] then robots_content else ''none'')),
          (''allows_indexing'', PBool (\<not> noindex)),
          (''allows_following'', PBool (\<not> nofollow)),
          (''status'', PStr (if \<not> noindex then ''good'' else ''poor'')),
          (''recommendation'',
             PStr (if noindex then ''Remove noindex directive'' else ''Page allows indexing''))])"

text \<open>
  The two probes build their URL and send their request inside the \<open>try\<close> of the check,
  so an exception of either leaves the body.
\<close>

definition xml_sitemap :: "world \<Rightarrow> string \<Rightarrow> pydict outcome" where
  "xml_sitemap w target =
     (case urljoin w target ''/sitemap.xml'' of
        Inl e \<Rightarrow> Inl e
      | Inr sitemap_url \<Rightarrow>
          (case session_get w sitemap_url of
             Inl e \<Rightarrow> Inl e
           | Inr sitemap_response \<Rightarrow>
               (let has_sitemap = (status_code sitemap_response = 200)
                in Inr [(''sitemap_url'', PStr sitemap_url),
                        (''exists'', PBool has_sitemap),
                        (''status'', PStr (if has_sitemap then ''good'' else ''needs_improvement'')),
                        (''recommendation'',
                           PStr (if \<not> has_sitemap then ''Create and submit XML sitemap''
                                 else ''XML sitemap found''))])))"

definition robots_txt :: "world \<Rightarrow> string \<Rightarrow> pydict outcome" where
  "robots_txt w target =
     (case urljoin w target ''/robots.txt'' of
        Inl e \<Rightarrow> Inl e
      | Inr robots_url \<Rightarrow>
          (case session_get w robots_url of
             Inl e \<Rightarrow> Inl e
           | Inr robots_response \<Rightarrow>
               (let has_robots = (status_code robots_response = 200)
                in Inr [(''robots_url'', PStr robots_url),
                        (''exists'', PBool has_robots),
                        (''content'',
                           (if has_robots then PStr (take 500 (resp_text robots_response))
                            else PNone)),
                        (''status'', PStr (if has_robots then ''good'' else ''needs_improvement'')),
                        (''recommendation'',
                           PStr (if \<not> has_robots then ''Create robots.txt file''
                                 else ''Robots.txt found''))])))"

text \<open>
  \<open>rel\<close> is a multi-valued attribute: \<open>find('link', attrs={'rel': 'canonical'})\<close>
  matches a link one of whose white-space separated \<open>rel\<close> values is \<open>canonical\<close>.
\<close>

definition rel_has :: "string \<Rightarrow> node \<Rightarrow> bool" where
  "rel_has v n = (case tag_get n ''rel'' of None \<Rightarrow> False | Some r \<Rightarrow> List.member (py_split r) v)"

definition canonical_tags :: "soup \<Rightarrow> pydict" where
  "canonical_tags sp =
     (let canonical_tag = find_first (\<lambda>n. named ''link'' n \<and> rel_has ''canonical'' n) sp;
          has_canonical = (canonical_tag \<noteq> None)
      in [(''has_canonical'', PBool has_canonical),
          (''canonical_url'',
             (case canonical_tag of None \<Rightarrow> PNone | Some t \<Rightarrow> opt_str (tag_get t ''href''))),
          (''status'', PStr (if has_canonical then ''good'' else ''needs_improvement'')),
          (''recommendation'',
             PStr (if \<not> has_canonical
                   then ''Add canonical tag to prevent duplicate content issues''
                   else ''Canonical tag implemented''))])"

subsection \<open>\<open>_analyze_structured_data\<close>\<close>

definition dict_get_default :: "pydict \<Rightarrow> string \<Rightarrow> pyval \<Rightarrow> pyval" where
  "dict_get_default d k dflt = (case map_of d k of None \<Rightarrow> dflt | Some v \<Rightarrow> v)"

text \<open>
  The body of the loop over the JSON-LD scripts, inside its \<open>try\<close>: \<open>json.loads\<close> raises
  on \<open>None\<close> and on malformed text, \<open>data.get\<close> raises when the parsed value is no
  dictionary; the bare \<open>except: pass\<close> then leaves the sample as it is.
\<close>

fun json_ld_sample :: "pyval outcome \<Rightarrow> pyval list" where
  "json_ld_sample (Inr (PDict d)) =
     [PDict [(''type'', dict_get_default d ''@type'' (PStr ''Unknown'')),
             (''context'', dict_get_default d ''@context'' (PStr ''Unknown''))]]"
| "json_ld_sample r = []"

definition json_ld_entry :: "(string \<Rightarrow> pyval outcome) \<Rightarrow> node \<Rightarrow> pyval list" where
  "json_ld_entry loads script =
     (case tag_string script of None \<Rightarrow> [] | Some s \<Rightarrow> json_ld_sample (loads s))"

definition attr_value :: "string \<Rightarrow> node \<Rightarrow> pyval" where
  "attr_value k n = (case tag_get n k of None \<Rightarrow> PNone | Some v \<Rightarrow> PStr v)"

definition analyze_structured_data :: "(string \<Rightarrow> pyval outcome) \<Rightarrow> soup \<Rightarrow> pydict" where
  "analyze_structured_data loads sp =
     (let json_ld_scripts =
            find_all (\<lambda>n. named ''script'' n \<and> attr_is ''type'' ''application/ld+json'' n) sp;
          microdata_items = find_all (has_attr ''itemtype'') sp;
          rdfa_props = find_all (has_attr ''property'') sp;
          total_schemas = length json_ld_scripts + length microdata_items + length rdfa_props
      in [(''json_ld_scripts'', PList (concat (map (json_ld_entry loads) json_ld_scripts))),
          (''microdata_items'', PList (map (attr_value ''itemtype'') microdata_items)),
          (''rdfa_properties'', PList (map (attr_value ''property'') (take 10 rdfa_props))),
          (''total_schemas'', PInt (int total_schemas)),
          (''status'', PStr (if 0 < total_schemas then ''good'' else ''needs_improvement'')),
          (''recommendation'',
             PStr (if total_schemas = 0 then ''Add structured data markup''
                   else ''Structured data found''))])"

subsection \<open>\<open>_check_broken_links\<close>\<close>

record link_probe =
  internal :: "pyval list"
  external :: "pyval list"
  total_checked :: nat
  broken_count :: nat

definition empty_probe :: link_probe where
  "empty_probe = \<lparr>internal = [], external = [], total_checked = 0, broken_count = 0\<rparr>"

text \<open>
  One link whose request returned a status of 400 or more: it is appended to \<open>internal\<close>
  when \<open>self.domain in full_url\<close>, to \<open>external\<close> otherwise, and counted.
\<close>

definition link_data_of :: "string \<Rightarrow> int \<Rightarrow> node \<Rightarrow> pyval" where
  "link_data_of full_url code link =
     PDict [(''url'', PStr full_url), (''status_code'', PInt code),
            (''text'', PStr (take 50 (get_text link)))]"

definition record_broken :: "string \<Rightarrow> string \<Rightarrow> int \<Rightarrow> node \<Rightarrow> link_probe \<Rightarrow> link_probe" where
  "record_broken dmn full_url code link st =
     (let link_data = link_data_of full_url code link;
          st1 = (if str_in dmn full_url then st\<lparr>internal := internal st @ [link_data]\<rparr>
                 else st\<lparr>external := external st @ [link_data]\<rparr>)
      in st1\<lparr>broken_count := broken_count st1 + 1\<rparr>)"

text \<open>
  The loop over \<open>links[:20]\<close>. \<open>urljoin\<close> stands outside the inner \<open>try\<close>, so its
  exception leaves the function; an exception of the request is caught by the bare
  \<open>except\<close>, which only counts.
\<close>

fun probe_loop ::
  "(string \<Rightarrow> string outcome) \<Rightarrow> (string \<Rightarrow> int outcome) \<Rightarrow> string \<Rightarrow> node list \<Rightarrow> link_probe
     \<Rightarrow> link_probe outcome" where
  "probe_loop join head dmn [] st = Inr st"
| "probe_loop join head dmn (link # links) st =
     (case tag_get link ''href'' of
        None \<Rightarrow> probe_loop join head dmn links st
      | Some href \<Rightarrow>
          if href = [] \<or> startswith_any href [''#'', ''mailto:'', ''tel:'']
          then probe_loop join head dmn links st
          else (case join href of
                  Inl e \<Rightarrow> Inl e
                | Inr full_url \<Rightarrow>
                    (let st1 = st\<lparr>total_checked := total_checked st + 1\<rparr>
                     in case head full_url of
                          Inl e \<Rightarrow>
                            probe_loop join head dmn links
                              (st1\<lparr>broken_count := broken_count st1 + 1\<rparr>)
                        | Inr code \<Rightarrow>
                            if 400 \<le> code
                            then probe_loop join head dmn links
                                   (record_broken dmn full_url code link st1)
                            else probe_loop join head dmn links st1)))"

definition broken_links_dict :: "link_probe \<Rightarrow> pydict" where
  "broken_links_dict st =
     [(''internal'', PList (internal st)), (''external'', PList (external st)),
      (''total_checked'', PInt (int (total_checked st))),
      (''broken_count'', PInt (int (broken_count st))),
      (''status'', PStr (if broken_count st = 0 then ''good'' else ''needs_improvement'')),
      (''recommendation'',
         PStr (if 0 < broken_count st then ''Fix broken links'' else ''No broken links found''))]"

definition anchors :: "soup \<Rightarrow> node list" where
  "anchors sp = find_all (\<lambda>n. named ''a'' n \<and> has_attr ''href'' n) sp"

definition check_broken_links_probe :: "world \<Rightarrow> string \<Rightarrow> string \<Rightarrow> soup \<Rightarrow> link_probe outcome" where
  "check_broken_links_probe w target dmn sp =
     probe_loop (urljoin w target) (session_head w) dmn (take 20 (anchors sp)) empty_probe"

definition check_broken_links :: "world \<Rightarrow> string \<Rightarrow> string \<Rightarrow> soup \<Rightarrow> pydict outcome" where
  "check_broken_links w target dmn sp =
     (case check_broken_links_probe w target dmn sp of
        Inl e \<Rightarrow> Inl e
      | Inr st \<Rightarrow> Inr (broken_links_dict st))"

subsection \<open>The checks of \<open>_audit_on_page_seo\<close>\<close>

definition title_tags :: "soup \<Rightarrow> pydict" where
  "title_tags sp =
     (let title_tag = find_first (named ''title'') sp;
          title_text = (case title_tag of None \<Rightarrow> [] | Some t \<Rightarrow> py_strip (get_text t));
          title_length = length title_text
      in [(''title'', PStr title_text),
          (''length'', PInt (int title_length)),
          (''optimal_length'', PBool (30 \<le> title_length \<and> title_length \<le> 60)),
          (''status'',
             PStr (if 30 \<le> title_length \<and> title_length \<le> 60 then ''good''
                   else ''needs_improvement'')),
          (''recommendation'',
             PStr (''Title length is '' @ str_nat title_length
                   @ '' characters. Optimal range is 30-60 characters.''))])"

definition meta_description :: "soup \<Rightarrow> pydict" where
  "meta_description sp =
     (let meta_desc = find_first (\<lambda>n. named ''meta'' n \<and> attr_is ''name'' ''description'' n) sp;
          desc_text =
            (case meta_desc of None \<Rightarrow> [] | Some m \<Rightarrow> py_strip (tag_get_or_empty m ''content''));
          desc_length = length desc_text
      in [(''description'', PStr desc_text),
          (''length'', PInt (int desc_length)),
          (''exists'', PBool (desc_text \<noteq> [])),
          (''optimal_length'', PBool (120 \<le> desc_length \<and> desc_length \<le> 160)),
          (''status'',
             PStr (if 120 \<le> desc_length \<and> desc_length \<le> 160 then ''good''
                   else ''needs_improvement'')),
          (''recommendation'',
             PStr (''Meta description length is '' @ str_nat desc_length
                   @ '' characters. Optimal range is 120-160 characters.''))])"

definition heading_texts :: "string \<Rightarrow> soup \<Rightarrow> pyval list" where
  "heading_texts h sp = map (\<lambda>t. PStr (take 100 (py_strip (get_text t)))) (find_all (named h) sp)"

definition analyze_heading_structure :: "soup \<Rightarrow> pydict" where
  "analyze_heading_structure sp =
     (let headings =
            map (\<lambda>h. (h, PList (heading_texts h sp)))
              [''h1'', ''h2'', ''h3'', ''h4'', ''h5'', ''h6''];
          h1_count = length (heading_texts ''h1'' sp);
          has_h2 = (0 < length (heading_texts ''h2'' sp));
          has_proper_structure = (h1_count = 1 \<and> has_h2)
      in [(''headings'', PDict headings),
          (''h1_count'', PInt (int h1_count)),
          (''has_single_h1'', PBool (h1_count = 1)),
          (''has_h2_tags'', PBool has_h2),
          (''proper_hierarchy'', PBool has_proper_structure),
          (''status'', PStr (if has_proper_structure then ''good'' else ''needs_improvement'')),
          (''recommendation'',
             PStr (if \<not> has_proper_structure
                   then ''Ensure single H1 and proper heading hierarchy''
                   else ''Good heading structure''))])"

definition image_analysis :: "node \<Rightarrow> pyval" where
  "image_analysis img =
     (let src = tag_get_or_empty img ''src''; alt = tag_get_or_empty img ''alt''
      in PDict [(''src'', PStr (take 100 src)),
                (''has_alt'', PBool (alt \<noteq> [])),
                (''alt_text'', PStr (if alt \<noteq> [] then take 50 alt else [])),
                (''loading'', PStr (tag_get_or_empty img ''loading'')),
                (''is_lazy_loaded'', PBool (tag_get img ''loading'' = Some ''lazy''))])"

definition analyze_images :: "soup \<Rightarrow> pydict" where
  "analyze_images sp =
     (let images = find_all (named ''img'') sp;
          total_images = length images;
          images_with_alt = length (filter (attr_truthy ''alt'') images);
          alt_percentage =
            (if 0 < total_images
             then float_mul (float_div (of_nat images_with_alt) (of_nat total_images)) 100
             else 0)
      in [(''total_images'', PInt (int total_images)),
          (''images_with_alt'', PInt (int images_with_alt)),
          (''alt_percentage'',
             (if 0 < total_images then PNum (py_round1 alt_percentage) else PInt 0)),
          (''sample_analysis'', PList (map image_analysis (take 10 images))),
          (''status'', PStr (if 90 \<le> alt_percentage then ''good'' else ''needs_improvement'')),
          (''recommendation'',
             PStr (if alt_percentage < 90
                   then ''Add alt text to '' @ str_nat (total_images - images_with_alt) @ '' images''
                   else ''Good image optimization''))])"

definition internal_link :: "node \<Rightarrow> pyval" where
  "internal_link link =
     PDict [(''href'', PStr (tag_get_or_empty link ''href'')),
            (''text'', PStr (take 50 (py_strip (get_text link)))),
            (''title'', PStr (tag_get_or_empty link ''title''))]"

definition analyze_internal_links :: "soup \<Rightarrow> pydict" where
  "analyze_internal_links sp =
     (let internal_links =
            filter (\<lambda>link. attr_truthy ''href'' link
                      \<and> \<not> startswith_any (tag_get_or_empty link ''href'')
                            [''http://'', ''https://'', ''mailto:'', ''tel:'', ''#''])
              (anchors sp);
          n = length internal_links
      in [(''total_internal_links'', PInt (int n)),
          (''sample_links'', PList (map internal_link (take 10 internal_links))),
          (''status'', PStr (if 5 < n then ''good'' else ''needs_improvement'')),
          (''recommendation'',
             PStr (if n \<le> 5 then ''Add more internal links for better navigation''
                   else ''Good internal linking''))])"

subsection \<open>\<open>_analyze_content\<close>\<close>

text \<open>
  The analyzer removes the \<open>script\<close> and \<open>style\<close> tags from \<open>self.soup\<close> itself before it
  reads the text, so it returns the document it leaves behind together with its finding.
\<close>

definition analyze_content :: "soup \<Rightarrow> pydict \<times> soup" where
  "analyze_content sp =
     (let sp' = decompose_all [''script'', ''style''] sp;
          body_text = soup_get_text sp';
          word_count = length (py_split body_text);
          sentence_count = length (filter nonblank (re_split_sentences body_text))
      in ([(''word_count'', PInt (int word_count)),
           (''sentence_count'', PInt (int sentence_count)),
           (''avg_sentence_length'',
              (if 0 < sentence_count
               then PNum (py_round1 (float_div (of_nat word_count) (of_nat sentence_count)))
               else PInt 0)),
           (''estimated_reading_time'', PNum (py_round1 (float_div (of_nat word_count) 200))),
           (''status'', PStr (if 300 \<le> word_count then ''good'' else ''needs_improvement'')),
           (''recommendation'',
              PStr (if word_count < 300 then ''Add more content for better SEO''
                    else ''Good content length''))],
          sp'))"

subsection \<open>The checks of \<open>_audit_off_page_seo\<close>\<close>

text \<open>
  \<open>_get_domain_info\<close> catches every failure of the lookup itself and answers with a fixed
  text.
\<close>

definition get_domain_info :: "world \<Rightarrow> string \<Rightarrow> pydict" where
  "get_domain_info w dmn =
     (case whois w dmn of
        Inl e \<Rightarrow> [(''error'', PStr ''Could not retrieve domain information'')]
      | Inr (creation_age, registrar) \<Rightarrow>
          (let age_days = (case creation_age of None \<Rightarrow> 0 | Some d \<Rightarrow> d)
           in [(''domain_age_days'', PInt age_days),
               (''domain_age_years'', PNum (py_round1 (float_div (of_int age_days) (1461 / 4)))),
               (''registrar'', registrar),
               (''status'', PStr (if 365 < age_days then ''good'' else ''needs_improvement'')),
               (''recommendation'',
                  PStr (if age_days < 365 then ''Domain age affects trust signals''
                        else ''Established domain''))]))"

definition meta_content :: "string \<Rightarrow> string \<Rightarrow> soup \<Rightarrow> pyval" where
  "meta_content k v sp =
     (case find_first (\<lambda>n. named ''meta'' n \<and> attr_is k v n) sp of
        None \<Rightarrow> PNone
      | Some m \<Rightarrow> opt_str (tag_get m ''content''))"

definition check_social_signals :: "soup \<Rightarrow> pydict" where
  "check_social_signals sp =
     (let present_tags =
            [(''og_title'', meta_content ''property'' ''og:title'' sp),
             (''og_description'', meta_content ''property'' ''og:description'' sp),
             (''og_image'', meta_content ''property'' ''og:image'' sp),
             (''og_url'', meta_content ''property'' ''og:url'' sp),
             (''twitter_card'', meta_content ''name'' ''twitter:card'' sp),
             (''twitter_title'', meta_content ''name'' ''twitter:title'' sp),
             (''twitter_description'', meta_content ''name'' ''twitter:description'' sp),
             (''twitter_image'', meta_content ''name'' ''twitter:image'' sp)];
          tags_count = length (filter (\<lambda>v. v \<noteq> PNone \<and> v \<noteq> PStr []) (dict_values present_tags))
      in [(''social_meta_tags'', PDict present_tags),
          (''tags_present'', PInt (int tags_count)),
          (''total_possible'', PInt 8),
          (''status'', PStr (if 6 \<le> tags_count then ''good'' else ''needs_improvement'')),
          (''recommendation'',
             PStr (''Add '' @ str_nat (8 - tags_count) @ '' missing social media meta tags''))])"

subsection \<open>\<open>_basic_backlink_analysis\<close>\<close>

definition basic_backlink_analysis :: pydict where
  "basic_backlink_analysis =
     [(''note'', PStr ''Comprehensive backlink analysis requires specialized tools like Ahrefs, SEMrush, or Moz''),
      (''recommendations'',
         PList [PStr ''Use Google Search Console to monitor backlinks'',
                PStr ''Build high-quality, relevant backlinks'',
                PStr ''Monitor for toxic backlinks and disavow if necessary'',
                PStr ''Create linkable content assets'']),
      (''status'', PStr ''requires_external_tools'')]"


subsection \<open>The checks of \<open>_audit_user_experience\<close>\<close>

definition nav_link :: "node \<Rightarrow> pyval" where
  "nav_link link =
     PDict [(''text'', PStr (py_strip (get_text link))),
            (''href'', PStr (tag_get_or_empty link ''href''))]"

definition analyze_navigation :: "soup \<Rightarrow> pydict" where
  "analyze_navigation sp =
     (let nav_elements = find_all (\<lambda>n. named ''nav'' n \<or> named ''menu'' n) sp;
          nav_links =
            concat (map (\<lambda>nav. map nav_link
                           (tag_find_all (\<lambda>n. named ''a'' n \<and> has_attr ''href'' n) nav))
                      nav_elements)
      in [(''navigation_elements'', PInt (int (length nav_elements))),
          (''navigation_links'', PInt (int (length nav_links))),
          (''sample_nav_links'', PList (take 10 nav_links)),
          (''status'', PStr (if 5 < length nav_links then ''good'' else ''needs_improvement'')),
          (''recommendation'',
             PStr (if length nav_links \<le> 5 then ''Improve navigation structure''
                   else ''Good navigation structure''))])"

text \<open>
  The score starts as the integer 0 and becomes a float with the first quotient added;
  \<open>round(score, 1)\<close> of an integer is that integer.
\<close>

definition analyze_accessibility :: "soup \<Rightarrow> pydict" where
  "analyze_accessibility sp =
     (let images_with_alt = length (filter (attr_truthy ''alt'') (find_all (named ''img'') sp));
          total_images = length (find_all (named ''img'') sp);
          form_labels = length (find_all (named ''label'') sp);
          total_inputs =
            length (find_all (\<lambda>n. named ''input'' n \<or> named ''textarea'' n \<or> named ''select'' n) sp);
          aria_labels = length (find_all (has_attr ''aria-label'') sp);
          heading_structure = (find_first (named ''h1'') sp \<noteq> None);
          skip_links =
            length (find_all (\<lambda>n. named ''a'' n \<and> attr_truthy ''href'' n
                                \<and> startswith (tag_get_or_empty n ''href'') ''#'') sp);
          s1 = (if 0 < total_images
                then float_add 0 (float_mul (float_div (of_nat images_with_alt) (of_nat total_images)) 30)
                else 0);
          s2 = (if 0 < total_inputs
                then float_add s1 (float_mul (float_div (of_nat form_labels) (of_nat total_inputs)) 30)
                else s1);
          s3 = float_add s2 (of_nat (min (aria_labels * 5) 20));
          s4 = float_add s3 (if heading_structure then 10 else 0);
          score = float_add s4 (of_nat (min (skip_links * 5) 10))
      in [(''images_with_alt'', PInt (int images_with_alt)),
          (''total_images'', PInt (int total_images)),
          (''form_labels'', PInt (int form_labels)),
          (''total_inputs'', PInt (int total_inputs)),
          (''aria_labels'', PInt (int aria_labels)),
          (''heading_structure'', PBool heading_structure),
          (''skip_links'', PInt (int skip_links)),
          (''accessibility_score'',
             (if 0 < total_images \<or> 0 < total_inputs then PNum (py_round1 score)
              else PInt \<lfloor>score\<rfloor>)),
          (''status'', PStr (if 70 \<le> score then ''good'' else ''needs_improvement'')),
          (''recommendation'',
             PStr (if score < 70 then ''Improve accessibility features''
                   else ''Good accessibility implementation''))])"

subsection \<open>\<open>_check_responsive_design\<close>\<close>

definition check_responsive_design :: "soup \<Rightarrow> pydict" where
  "check_responsive_design sp =
     (let viewport_meta = find_first (\<lambda>n. named ''meta'' n \<and> attr_is ''name'' ''viewport'' n) sp;
          css_media_queries = count_matches ''@media'' (str_soup sp)
      in [(''has_viewport_meta'', PBool (viewport_meta \<noteq> None)),
          (''viewport_content'',
             (case viewport_meta of None \<Rightarrow> PNone | Some m \<Rightarrow> attr_value ''content'' m)),
          (''css_media_queries_found'', PInt (int css_media_queries)),
          (''status'',
             PStr (if viewport_meta \<noteq> None \<and> 0 < css_media_queries then ''good''
                   else ''needs_improvement'')),
          (''recommendation'',
             PStr (if viewport_meta = None then ''Implement responsive design''
                   else ''Responsive design indicators found''))])"

subsection \<open>The checks of \<open>_audit_security_performance\<close>\<close>

definition check_security_headers :: "response \<Rightarrow> pydict" where
  "check_security_headers resp =
     (let security_headers =
            [(''content_security_policy'', opt_str (header_get (headers resp) ''Content-Security-Policy'')),
             (''x_frame_options'', opt_str (header_get (headers resp) ''X-Frame-Options'')),
             (''x_content_type_options'', opt_str (header_get (headers resp) ''X-Content-Type-Options'')),
             (''strict_transport_security'', opt_str (header_get (headers resp) ''Strict-Transport-Security'')),
             (''referrer_policy'', opt_str (header_get (headers resp) ''Referrer-Policy'')),
             (''x_xss_protection'', opt_str (header_get (headers resp) ''X-XSS-Protection''))];
          present_headers =
            length (filter (\<lambda>v. v \<noteq> PNone \<and> v \<noteq> PStr []) (dict_values security_headers))
      in [(''security_headers'', PDict security_headers),
          (''headers_present'', PInt (int present_headers)),
          (''total_possible'', PInt 6),
          (''security_score'',
             PNum (py_round1 (float_mul (float_div (of_nat present_headers) 6) 100))),
          (''status'', PStr (if 4 \<le> present_headers then ''good'' else ''needs_improvement'')),
          (''recommendation'',
             PStr (''Implement '' @ str_nat (6 - present_headers) @ '' missing security headers''))])"

definition cdn_indicators :: "string list" where
  "cdn_indicators = [''cloudflare'', ''amazonaws'', ''azure'', ''googleusercontent'', ''fastly'', ''maxcdn'']"

definition check_performance_enhancements :: "response \<Rightarrow> soup \<Rightarrow> pydict" where
  "check_performance_enhancements resp sp =
     (let gzip_compression = str_in ''gzip'' (py_lower (header_get_or_empty (headers resp) ''Content-Encoding''));
          cache_control = (header_get_or_empty (headers resp) ''Cache-Control'' \<noteq> []);
          etag = (header_get_or_empty (headers resp) ''ETag'' \<noteq> []);
          last_modified = (header_get_or_empty (headers resp) ''Last-Modified'' \<noteq> []);
          lazy_images = length (find_all (\<lambda>n. named ''img'' n \<and> attr_is ''loading'' ''lazy'' n) sp);
          server_header = py_lower (header_get_or_empty (headers resp) ''Server'');
          cdn_usage = list_ex (\<lambda>cdn. str_in cdn server_header) cdn_indicators;
          score = (if gzip_compression then 20 else 0) + (if cache_control then 20 else 0)
                  + (if etag then 15 else 0) + (if last_modified then 15 else 0)
                  + (if 0 < lazy_images then 15 else 0) + (if cdn_usage then 15 else (0::int))
      in [(''gzip_compression'', PBool gzip_compression),
          (''cache_control'', PBool cache_control),
          (''etag'', PBool etag),
          (''last_modified'', PBool last_modified),
          (''content_length'', opt_str (header_get (headers resp) ''Content-Length'')),
          (''server_response_time'', elapsed resp),
          (''lazy_loading_images'', PInt (int lazy_images)),
          (''cdn_usage'', PBool cdn_usage),
          (''performance_score'', PInt score),
          (''status'', PStr (if 70 \<le> score then ''good'' else ''needs_improvement'')),
          (''recommendation'',
             PStr (if score < 70 then ''Implement performance optimizations''
                   else ''Good performance optimizations''))])"

subsection \<open>\<open>_get_pagespeed_data\<close>\<close>

text \<open>
  The function catches every failure of its request and of the extraction itself and
  answers with the text of the exception.
\<close>

definition get_pagespeed_data :: "world \<Rightarrow> string \<Rightarrow> string \<Rightarrow> pydict" where
  "get_pagespeed_data w target strategy =
     (case pagespeed_data w target strategy of
        Inl e \<Rightarrow> [(''error'', PStr e)]
      | Inr d \<Rightarrow> d)"

section \<open>The audit modules\<close>

text \<open>
  Every check of a module is wrapped in its own handler:
  \<open>try: d[name] = body() except Exception as e: d[name] = {'error': str(e)}\<close>.
  Each module is given by its checks in order, every one with the outcome of its body.
  Only the two probes and the link check of the technical module can leave their body by
  an exception; the other bodies only read the parsed document and the response, or catch
  their failures themselves.
\<close>

definition caught_dict :: "pydict outcome \<Rightarrow> pydict" where
  "caught_dict r = (case r of Inl msg \<Rightarrow> [(''error'', PStr msg)] | Inr f \<Rightarrow> f)"

definition caught :: "pydict outcome \<Rightarrow> pyval" where
  "caught r = PDict (caught_dict r)"

text \<open>The handler of \<open>response_time\<close> is a bare \<open>except\<close> with a fixed text.\<close>

definition caught_response_time :: "pydict outcome \<Rightarrow> pyval" where
  "caught_response_time r =
     (case r of Inl msg \<Rightarrow> PDict [(''error'', PStr ''Could not measure response time'')]
      | Inr f \<Rightarrow> PDict f)"

definition technical_bodies :: "world \<Rightarrow> string \<Rightarrow> string \<Rightarrow> soup \<Rightarrow> (string \<times> pydict outcome) list" where
  "technical_bodies w target dmn sp =
     [(''https_ssl'', Inr (https_ssl w target)),
      (''mobile_friendly'', Inr (mobile_friendly sp)),
      (''indexability'', Inr (indexability sp)),
      (''xml_sitemap'', xml_sitemap w target),
      (''robots_txt'', robots_txt w target),
      (''canonical_tags'', Inr (canonical_tags sp)),
      (''structured_data'', Inr (analyze_structured_data (json_loads w) sp)),
      (''broken_links'', check_broken_links w target dmn sp)]"

definition audit_technical_seo :: "world \<Rightarrow> string \<Rightarrow> string \<Rightarrow> soup \<Rightarrow> pydict" where
  "audit_technical_seo w target dmn sp =
     (''response_time'', caught_response_time (Inr (response_time w)))
     # map (\<lambda>(name, body). (name, caught body)) (technical_bodies w target dmn sp)"

text \<open>
  The content analysis is the last check of the on-page module; the checks before it see
  the document as fetched, the modules after it see what it leaves.
\<close>

definition on_page_bodies :: "soup \<Rightarrow> (string \<times> pydict outcome) list" where
  "on_page_bodies sp =
     [(''title_tags'', Inr (title_tags sp)),
      (''meta_description'', Inr (meta_description sp)),
      (''heading_structure'', Inr (analyze_heading_structure sp)),
      (''image_optimization'', Inr (analyze_images sp)),
      (''internal_linking'', Inr (analyze_internal_links sp)),
      (''content_analysis'', Inr (fst (analyze_content sp)))]"

definition audit_on_page_seo :: "soup \<Rightarrow> pydict \<times> soup" where
  "audit_on_page_seo sp =
     (map (\<lambda>(name, body). (name, caught body)) (on_page_bodies sp), snd (analyze_content sp))"

definition off_page_bodies :: "world \<Rightarrow> string \<Rightarrow> soup \<Rightarrow> (string \<times> pydict outcome) list" where
  "off_page_bodies w dmn sp =
     [(''domain_authority'', Inr (get_domain_info w dmn)),
      (''social_signals'', Inr (check_social_signals sp)),
      (''backlink_analysis'', Inr basic_backlink_analysis)]"

definition audit_off_page_seo :: "world \<Rightarrow> string \<Rightarrow> soup \<Rightarrow> pydict" where
  "audit_off_page_seo w dmn sp =
     map (\<lambda>(name, body). (name, caught body)) (off_page_bodies w dmn sp)"

definition user_experience_bodies :: "soup \<Rightarrow> (string \<times> pydict outcome) list" where
  "user_experience_bodies sp =
     [(''navigation'', Inr (analyze_navigation sp)),
      (''accessibility'', Inr (analyze_accessibility sp)),
      (''responsive_design'', Inr (check_responsive_design sp))]"

definition audit_user_experience :: "soup \<Rightarrow> pydict" where
  "audit_user_experience sp =
     map (\<lambda>(name, body). (name, caught body)) (user_experience_bodies sp)"

definition security_bodies :: "response \<Rightarrow> soup \<Rightarrow> (string \<times> pydict outcome) list" where
  "security_bodies resp sp =
     [(''security_headers'', Inr (check_security_headers resp)),
      (''performance_enhancements'', Inr (check_performance_enhancements resp sp))]"

definition audit_security_performance :: "response \<Rightarrow> soup \<Rightarrow> pydict" where
  "audit_security_performance resp sp =
     map (\<lambda>(name, body). (name, caught body)) (security_bodies resp sp)"

definition audit_pagespeed_insights :: "world \<Rightarrow> string \<Rightarrow> pydict" where
  "audit_pagespeed_insights w target =
     [(''mobile'', PDict (get_pagespeed_data w target ''mobile'')),
      (''desktop'', PDict (get_pagespeed_data w target ''desktop''))]"

section \<open>The library's check of a host in brackets\<close>

text \<open>
  \<open>_check_bracketed_host\<close> of \<open>urllib.parse\<close> with \<open>ipaddress.ip_address\<close>, as of
  Python 3.11.4: a host that starts with \<open>v\<close> must be an IPvFuture literal, any other
  must be an IPv6 address, with an optional zone after \<open>%\<close> and an optional dotted
  IPv4 suffix.
\<close>

definition is_ascii_digit :: "char \<Rightarrow> bool" where
  "is_ascii_digit c = List.member ''0123456789'' c"

definition is_hex_digit :: "char \<Rightarrow> bool" where
  "is_hex_digit c = List.member ''0123456789ABCDEFabcdef'' c"

definition decimal_value :: "string \<Rightarrow> nat" where
  "decimal_value s = foldl (\<lambda>n c. 10 * n + (of_char c - 48)) 0 s"

definition octet_ok :: "string \<Rightarrow> bool" where
  "octet_ok s =
     (s \<noteq> [] \<and> list_all is_ascii_digit s \<and> length s \<le> 3
      \<and> (s = ''0'' \<or> take 1 s \<noteq> ''0'') \<and> decimal_value s \<le> 255)"

definition ipv4_ok :: "string \<Rightarrow> bool" where
  "ipv4_ok s =
     (s \<noteq> [] \<and> \<not> List.member s (CHR ''/'')
      \<and> length (split_char (CHR ''.'') s []) = 4
      \<and> list_all octet_ok (split_char (CHR ''.'') s []))"

definition hextet_ok :: "string \<Rightarrow> bool" where
  "hextet_ok h = (h \<noteq> [] \<and> list_all is_hex_digit h \<and> length h \<le> 4)"

text \<open>
  The parts between the colons, after a dotted suffix has been replaced by its two
  hextets: at most one empty part strictly inside marks the run of zeros; an empty first
  or last part is allowed only next to it.
\<close>

definition hextets_ok :: "string list \<Rightarrow> bool" where
  "hextets_ok parts =
     (let n = length parts;
          skips = filter (\<lambda>i. parts ! i = []) [1 ..< n - 1]
      in if n > 9 \<or> length skips > 1 then False
         else (case skips of
                 [] \<Rightarrow> n = 8 \<and> list_all hextet_ok parts
               | i # _ \<Rightarrow>
                   (let first_empty = (parts ! 0 = []);
                        last_empty = (parts ! (n - 1) = []);
                        parts_hi = (if first_empty then i - 1 else i);
                        parts_lo = (if last_empty then n - i - 2 else n - i - 1)
                    in (if first_empty then parts_hi = 0 else True)
                       \<and> (if last_empty then parts_lo = 0 else True)
                       \<and> parts_hi + parts_lo \<le> 7
                       \<and> list_all hextet_ok (take parts_hi parts)
                       \<and> list_all hextet_ok (drop (n - parts_lo) parts))))"

definition ipv6_ok :: "string \<Rightarrow> bool" where
  "ipv6_ok s =
     (let addr = takeWhile (\<lambda>c. c \<noteq> CHR ''%'') s;
          zone = drop 1 (dropWhile (\<lambda>c. c \<noteq> CHR ''%'') s);
          zone_ok = (if List.member s (CHR ''%'') then zone \<noteq> [] \<and> \<not> List.member zone (CHR ''%'')
                     else True);
          parts = split_char (CHR '':'') addr []
      in \<not> List.member s (CHR ''/'') \<and> zone_ok \<and> addr \<noteq> [] \<and> 3 \<le> length parts
         \<and> (if List.member (last parts) (CHR ''.'')
             then ipv4_ok (last parts) \<and> hextets_ok (butlast parts @ [''0'', ''0''])
             else hextets_ok parts))"

definition ipvfuture_ok :: "string \<Rightarrow> bool" where
  "ipvfuture_ok h =
     (let digits = takeWhile is_hex_digit (drop 1 h);
          rest = dropWhile is_hex_digit (drop 1 h)
      in digits \<noteq> [] \<and> take 1 rest = ''.'' \<and> 2 \<le> length rest)"

definition python_check_bracketed_host :: "string \<Rightarrow> string option" where
  "python_check_bracketed_host h =
     (if startswith h ''v''
      then (if ipvfuture_ok h then None else Some ''IPvFuture address is invalid'')
      else if ipv4_ok h then Some ''An IPv4 address cannot be in brackets''
      else if ipv6_ok h then None
      else Some ([CHR 0x27] @ h @ [CHR 0x27] @ '' does not appear to be an IPv4 or IPv6 address''))"

section \<open>The pipeline: \<open>audit_website\<close>\<close>

definition normalize_url :: "string \<Rightarrow> string" where
  "normalize_url u = (if startswith_any u [''http://'', ''https://''] then u else ''https://'' @ u)"

text \<open>
  \<open>urlparse(url).netloc\<close> of a normalised URL: tabs, carriage returns and line feeds are
  removed first; the host part is what follows the scheme's \<open>://\<close> up to the first
  \<open>/\<close>, \<open>?\<close> or \<open>#\<close>; a bracket without its partner raises \<open>ValueError\<close>, and so does
  a host in brackets (the text between the first \<open>[\<close> and the next \<open>]\<close>) that the
  library's check refuses. As of Python 3.11.4.
\<close>

definition bracketed_host :: "string \<Rightarrow> string" where
  "bracketed_host netloc =
     takeWhile (\<lambda>c. c \<noteq> CHR '']'') (drop 1 (dropWhile (\<lambda>c. c \<noteq> CHR ''['') netloc))"

definition urlparse_netloc :: "string \<Rightarrow> string outcome" where
  "urlparse_netloc u =
     (let u1 = filter (\<lambda>c. \<not> List.member [CHR 0x09, CHR 0x0D, CHR 0x0A] c) u;
          rest = (if startswith u1 ''https://'' then drop 8 u1 else drop 7 u1);
          netloc = takeWhile (\<lambda>c. \<not> List.member ''/?#'' c) rest
      in if List.member netloc (CHR ''['') \<noteq> List.member netloc (CHR '']'')
         then Inl ''Invalid IPv6 URL''
         else if List.member netloc (CHR ''['')
         then (case python_check_bracketed_host (bracketed_host netloc) of
                 Some e \<Rightarrow> Inl e
               | None \<Rightarrow> Inr netloc)
         else Inr netloc)"

definition initial_report :: "world \<Rightarrow> string \<Rightarrow> string \<Rightarrow> audit_report" where
  "initial_report w target dmn =
     \<lparr>url = target, domain = dmn, audit_timestamp = now_isoformat w,
      technical_seo = [], on_page_seo = [], off_page_seo = [], user_experience = [],
      security_performance = [], pagespeed_insights = [], scores = None, error = None\<rparr>"

text \<open>
  The modules run inside the \<open>try\<close> that also holds the fetch; its handler stores
  \<open>str(e)\<close> under \<open>error\<close> and returns the report as it stands. The host name is taken
  before the \<open>try\<close>.
\<close>

definition run_modules :: "world \<Rightarrow> string option \<Rightarrow> string \<Rightarrow> string \<Rightarrow> response \<Rightarrow> audit_report \<Rightarrow> audit_report" where
  "run_modules w api_key target dmn resp r0 =
     (let sp = parsed resp;
          r1 = r0\<lparr>technical_seo := audit_technical_seo w target dmn sp\<rparr>;
          (on_page, sp1) = audit_on_page_seo sp;
          r2 = r1\<lparr>on_page_seo := on_page\<rparr>;
          r3 = r2\<lparr>off_page_seo := audit_off_page_seo w dmn sp1\<rparr>;
          r4 = r3\<lparr>user_experience := audit_user_experience sp1\<rparr>;
          r5 = r4\<lparr>security_performance := audit_security_performance resp sp1\<rparr>;
          r6 = (if api_key \<noteq> None \<and> api_key \<noteq> Some []
                then r5\<lparr>pagespeed_insights := audit_pagespeed_insights w target\<rparr> else r5)
      in calculate_scores r6)"

definition audit_website :: "world \<Rightarrow> string option \<Rightarrow> string \<Rightarrow> audit_report outcome" where
  "audit_website w api_key target0 =
     (let target = normalize_url target0
      in case urlparse_netloc target of
           Inl e \<Rightarrow> Inl e
         | Inr dmn \<Rightarrow>
             (case session_get w target of
                Inl e \<Rightarrow> Inr ((initial_report w target dmn)\<lparr>error := Some e\<rparr>)
              | Inr resp \<Rightarrow>
                  Inr (run_modules w api_key target dmn resp (initial_report w target dmn))))"

section \<open>The web interface\<close>

record datetime =
  year :: nat
  month :: nat
  day :: nat
  hour :: nat
  minute :: nat
  second :: nat

definition two_digits :: "nat \<Rightarrow> string" where
  "two_digits n = (if n < 10 then ''0'' @ str_nat n else str_nat n)"

text \<open>\<open>strftime('%Y%m%d_%H%M%S')\<close>, for a year of four digits.\<close>

definition strftime_id :: "datetime \<Rightarrow> string" where
  "strftime_id t =
     str_nat (year t) @ two_digits (month t) @ two_digits (day t) @ ''_''
       @ two_digits (hour t) @ two_digits (minute t) @ two_digits (second t)"

text \<open>
  \<open>f"audit_{datetime.now().strftime('%Y%m%d_%H%M%S')}_{hash(url) % 10000}"\<close>; the hash of
  strings is a function fixed for the life of the process.
\<close>

definition make_audit_id :: "(string \<Rightarrow> int) \<Rightarrow> datetime \<Rightarrow> string \<Rightarrow> string" where
  "make_audit_id py_hash now target =
     ''audit_'' @ strftime_id now @ ''_'' @ str_nat (nat (py_hash target mod 10000))"

record job =
  audit_id :: string
  job_url :: string
  job_api_key :: "string option"

datatype http_response = Json nat pydict

text \<open>
  \<open>start_audit\<close> reads \<open>url\<close> and \<open>api_key\<close> from the JSON body, answers 400 without a
  URL, and otherwise names the audit and hands it to a background thread; any exception
  answers 500. The cache is not touched here.
\<close>

definition json_str :: "pydict \<Rightarrow> string \<Rightarrow> string outcome" where
  "json_str d k =
     (case map_of d k of None \<Rightarrow> Inr []
      | Some (PStr s) \<Rightarrow> Inr (py_strip s)
      | Some v \<Rightarrow> Inl ''object has no attribute strip'')"

definition start_audit :: "(string \<Rightarrow> int) \<Rightarrow> datetime \<Rightarrow> pydict \<Rightarrow> http_response \<times> job option" where
  "start_audit py_hash now d =
     (case json_str d ''url'' of
        Inl e \<Rightarrow> (Json 500 [(''error'', PStr e)], None)
      | Inr target \<Rightarrow>
          (case json_str d ''api_key'' of
             Inl e \<Rightarrow> (Json 500 [(''error'', PStr e)], None)
           | Inr k \<Rightarrow>
               if target = [] then (Json 400 [(''error'', PStr ''URL is required'')], None)
               else (let aid = make_audit_id py_hash now target
                     in (Json 200 [(''audit_id'', PStr aid),
                                   (''message'', PStr ''Audit started successfully''),
                                   (''status'', PStr ''running'')],
                         Some \<lparr>audit_id = aid, job_url = target,
                               job_api_key = (if k = [] then None else Some k)\<rparr>))))"

text \<open>
  \<open>run_audit\<close>, the body of the thread: the finished report is stored under the audit's
  identifier; an exception of \<open>audit_website\<close> ends the thread before the store.
\<close>

type_synonym cache = "(string \<times> audit_report) list"

definition run_audit :: "world \<Rightarrow> job \<Rightarrow> cache \<Rightarrow> cache" where
  "run_audit w j c =
     (case audit_website w (job_api_key j) (job_url j) of
        Inl e \<Rightarrow> c
      | Inr results \<Rightarrow> dict_set (audit_id j) results c)"

definition in_cache :: "string \<Rightarrow> cache \<Rightarrow> bool" where
  "in_cache aid c = (case map_of c aid of None \<Rightarrow> False | Some r \<Rightarrow> True)"

definition audit_status :: "cache \<Rightarrow> string \<Rightarrow> http_response" where
  "audit_status c aid =
     (if in_cache aid c
      then Json 200 [(''status'', PStr ''completed''), (''audit_id'', PStr aid)]
      else Json 200 [(''status'', PStr ''running''), (''audit_id'', PStr aid)])"



text \<open>
  The server between requests: the result cache and the audits whose threads have been
  started and have not yet stored their report. \<open>submit\<close> is one \<open>POST /audit\<close>;
  \<open>finish i\<close> lets the thread at position \<open>i\<close> run to its end.
\<close>

record server =
  audit_results_cache :: cache
  threads :: "job list"

definition empty_server :: server where
  "empty_server = \<lparr>audit_results_cache = [], threads = []\<rparr>"

definition submit :: "(string \<Rightarrow> int) \<Rightarrow> datetime \<Rightarrow> pydict \<Rightarrow> server \<Rightarrow> server" where
  "submit py_hash now d s =
     (case snd (start_audit py_hash now d) of
        None \<Rightarrow> s
      | Some j \<Rightarrow> s\<lparr>threads := threads s @ [j]\<rparr>)"

definition finish :: "world \<Rightarrow> nat \<Rightarrow> server \<Rightarrow> server" where
  "finish w i s =
     (if i < length (threads s)
      then \<lparr>audit_results_cache = run_audit w (threads s ! i) (audit_results_cache s),
            threads = take i (threads s) @ drop (Suc i) (threads s)\<rparr>
      else s)"

section \<open>Reading reports and probes\<close>

definition category_score_keys :: "string list" where
  "category_score_keys =
     [''technical_seo_score'', ''on_page_seo_score'', ''off_page_seo_score'',
      ''user_experience_score'', ''security_performance_score'']"

text \<open>The field \<open>field\<close> of the finding that a category holds for the check \<open>name\<close>.\<close>

definition finding_field :: "pydict \<Rightarrow> string \<Rightarrow> string \<Rightarrow> pyval option" where
  "finding_field cat name field =
     (case map_of cat name of
        None \<Rightarrow> None
      | Some v \<Rightarrow> (case v of PDict f \<Rightarrow> map_of f field | _ \<Rightarrow> None))"

text \<open>
  The links of a sample whose request was answered with a status of 400 or more, in the
  order of the sample, each with its resolved URL and the status.
\<close>

fun status_failures ::
  "(string \<Rightarrow> string outcome) \<Rightarrow> (string \<Rightarrow> int outcome) \<Rightarrow> node list \<Rightarrow> (string \<times> int \<times> node) list" where
  "status_failures join head [] = []"
| "status_failures join head (link # links) =
     (case tag_get link ''href'' of
        None \<Rightarrow> status_failures join head links
      | Some href \<Rightarrow>
          if href = [] \<or> startswith_any href [''#'', ''mailto:'', ''tel:'']
          then status_failures join head links
          else (case join href of
                  Inl e \<Rightarrow> status_failures join head links
                | Inr full_url \<Rightarrow>
                    (case head full_url of
                       Inl e \<Rightarrow> status_failures join head links
                     | Inr code \<Rightarrow>
                         if 400 \<le> code
                         then (full_url, code, link) # status_failures join head links
                         else status_failures join head links)))"

text \<open>The identifiers given to a sequence of submissions, each with the clock's reading
  at its arrival.\<close>

definition submitted_ids :: "(string \<Rightarrow> int) \<Rightarrow> (datetime \<times> pydict) list \<Rightarrow> string option list" where
  "submitted_ids py_hash reqs =
     map (\<lambda>(now, d). map_option audit_id (snd (start_audit py_hash now d))) reqs"

section \<open>Example inputs\<close>

definition example_report :: audit_report where
  "example_report =
     \<lparr>url = ''https://example.com'', domain = ''example.com'',
      audit_timestamp = ''2024-01-01T12:00:00'',
      technical_seo =
        [(''https_ssl'', PDict [(''status'', PStr ''good'')]),
         (''mobile_friendly'', PDict [(''status'', PStr ''good'')]),
         (''indexability'', PDict [(''status'', PStr ''poor'')]),
         (''xml_sitemap'', PDict [(''error'', PStr ''timed out'')])],
      on_page_seo = [(''title_tags'', PDict [(''status'', PStr ''good'')])],
      off_page_seo = [], user_experience = [], security_performance = [],
      pagespeed_insights = [], scores = None, error = None\<rparr>"

definition on_page_only_report :: audit_report where
  "on_page_only_report =
     \<lparr>url = ''https://example.com'', domain = ''example.com'',
      audit_timestamp = ''2024-01-01T12:00:00'',
      technical_seo = [],
      on_page_seo = [(''title_tags'', PDict [(''status'', PStr ''good'')])],
      off_page_seo = [], user_experience = [], security_performance = [],
      pagespeed_insights = [], scores = None, error = None\<rparr>"

text \<open>
  A page with a viewport tag, a style sheet holding one media query, a JSON-LD block that
  is no JSON, a \<open>javascript:\<close> link and a link to another host whose query string holds
  the audited host name.
\<close>

definition example_page :: soup where
  "example_page =
     [Tag ''html'' []
        [Tag ''head'' []
           [Tag ''meta'' [(''name'', ''viewport''), (''content'', ''width=device-width'')] [],
            Tag ''style'' [] [NavigableString ''@media (max-width:600px){p{margin:0}}''],
            Tag ''script'' [(''type'', ''application/ld+json'')] [NavigableString ''{not json'']],
         Tag ''body'' []
           [Tag ''p'' [] [NavigableString ''Hello world. Welcome!''],
            Tag ''a'' [(''href'', ''javascript:void(0)'')] [NavigableString ''Menu''],
            Tag ''a'' [(''href'', ''https://evil.org/?u=example.com'')]
              [NavigableString ''Partner'']]]]"

text \<open>
  A world in which \<open>https://example.com\<close> serves that page, its \<open>robots.txt\<close> is
  missing, the request for its site map times out and no other host answers; the request
  for the \<open>javascript:\<close> link raises (no connection adapter), the other host answers
  404; the links of the page are absolute and the two probes ask for absolute paths of a
  base without a path, which is all that \<open>urljoin\<close> is asked here; the JSON-LD block
  does not parse; the domain lookup and the page-speed service cannot be reached.
\<close>

definition example_response :: response where
  "example_response =
     \<lparr>status_code = 200,
      headers = [(''Content-Type'', ''text/html''), (''Server'', ''nginx''),
                 (''X-Frame-Options'', ''DENY'')],
      resp_text = [], parsed = example_page, elapsed = PStr ''0:00:00.120000''\<rparr>"

definition not_found_response :: response where
  "not_found_response =
     \<lparr>status_code = 404, headers = [], resp_text = ''Not Found'', parsed = [],
      elapsed = PStr ''0:00:00.050000''\<rparr>"

definition example_world :: world where
  "example_world =
     \<lparr>session_get =
        (\<lambda>u. if u = ''https://example.com'' then Inr example_response
             else if u = ''https://example.com/robots.txt'' then Inr not_found_response
             else if u = ''https://example.com/sitemap.xml'' then Inl ''Read timed out''
             else Inl ''Connection refused''),
      session_head =
        (\<lambda>u. if u = ''javascript:void(0)'' then Inl ''No connection adapters were found''
             else if u = ''https://evil.org/?u=example.com'' then Inr 404 else Inr 200),
      urljoin = (\<lambda>base href. if startswith href ''/'' then Inr (base @ href) else Inr href),
      json_loads = (\<lambda>s. Inl ''Expecting property name enclosed in double quotes''),
      check_ssl_certificate = (\<lambda>u. True),
      whois = (\<lambda>d. Inl ''Connection reset by peer''),
      pagespeed_data = (\<lambda>u strategy. Inl ''Read timed out''),
      response_time_measured = 1 / 1048576,
      now_isoformat = ''2024-01-01T12:00:00''\<rparr>"

definition example_time :: datetime where
  "example_time = \<lparr>year = 2024, month = 1, day = 1, hour = 12, minute = 0, second = 0\<rparr>"

definition example_request :: pydict where
  "example_request = [(''url'', PStr ''example.com'')]"

section \<open>Properties\<close>

subsection \<open>Score aggregation\<close>

lemma score_loop_spec:
  "score_loop cat (s, n) = (s + sum_list (spec_points cat), n + length (spec_points cat))"
  by (induction cat arbitrary: s n) (auto simp: spec_points_def dict_values_def)

lemma py_round1_nonneg: "0 \<le> x \<Longrightarrow> 0 \<le> py_round1 x"
  unfolding py_round1_def Let_def
  by (auto simp: zero_le_divide_iff intro!: add_nonneg_nonneg)

lemma status_points_nonneg: "0 \<le> status_points v"
  by (cases v) auto

lemma spec_points_nonneg: "0 \<le> sum_list (spec_points cat)"
  unfolding spec_points_def
  by (induction cat) (auto simp: dict_values_def status_points_nonneg)

lemma spec_category_score_nonneg: "0 \<le> spec_category_score cat"
  unfolding spec_category_score_def
  using spec_points_nonneg[of cat] by (auto simp: zero_le_divide_iff)

lemma scores_calculate_scores:
  "scores (calculate_scores r) =
     Some (dict_set ''overall_score''
             (overall_of (dict_set ''technical_seo_score''
                            (py_round1 (spec_category_score (technical_seo r))) initial_scores))
             (dict_set ''technical_seo_score''
                (py_round1 (spec_category_score (technical_seo r))) initial_scores))"
  unfolding calculate_scores_def
  by (simp add: score_loop_spec spec_category_score_def Let_def)

lemma overall_of_technical_only:
  assumes "0 \<le> t"
  shows "overall_of [(''technical_seo_score'', t), (''on_page_seo_score'', 0),
            (''off_page_seo_score'', 0), (''user_experience_score'', 0),
            (''security_performance_score'', 0), (''overall_score'', 0)]
         = py_round1 (spec_overall [t, 0, 0, 0, 0])"
proof (cases "t = 0")
  case True
  then show ?thesis by (simp add: overall_of_def dict_values_def spec_overall_def)
next
  case False
  with assms have "0 < t" by simp
  then show ?thesis by (simp add: overall_of_def dict_values_def spec_overall_def)
qed

text \<open>
  Claim C1, as the code has it. For every report, the technical category's score is the
  mean of the points of its findings that carry a status (100 for \<open>good\<close>, 50 for
  \<open>needs_improvement\<close>, 0 for any other status; 0 when no finding carries a status),
  rounded to one decimal; and the overall score is the mean, rounded to one decimal, of
  those of the five category scores of the Scores block that are strictly positive
  (0 when none is). Nothing is said here about how the other four category scores
  come about.
\<close>

theorem technical_score_and_overall:
  "score_of (calculate_scores r) ''technical_seo_score''
     = Some (py_round1 (spec_category_score (technical_seo r)))
   \<and> (\<exists>cs. those (map (score_of (calculate_scores r)) category_score_keys) = Some cs
          \<and> score_of (calculate_scores r) ''overall_score'' = Some (py_round1 (spec_overall cs)))"
proof -
  define t where "t = py_round1 (spec_category_score (technical_seo r))"
  have t0: "0 \<le> t"
    unfolding t_def by (rule py_round1_nonneg[OF spec_category_score_nonneg])
  have sc: "scores (calculate_scores r) =
      Some (dict_set ''overall_score'' (overall_of (dict_set ''technical_seo_score'' t initial_scores))
             (dict_set ''technical_seo_score'' t initial_scores))"
    unfolding t_def by (rule scores_calculate_scores)
  have tech: "score_of (calculate_scores r) ''technical_seo_score'' = Some t"
    unfolding score_of_def sc by (simp add: initial_scores_def)
  have rest: "those (map (score_of (calculate_scores r)) category_score_keys) = Some [t, 0, 0, 0, 0]"
    unfolding score_of_def sc category_score_keys_def by (simp add: initial_scores_def)
  have ov: "score_of (calculate_scores r) ''overall_score'' = Some (py_round1 (spec_overall [t, 0, 0, 0, 0]))"
    unfolding score_of_def sc using overall_of_technical_only[OF t0]
    by (simp add: initial_scores_def)
  show ?thesis using tech rest ov unfolding t_def by blast
qed

text \<open>
  Claim C1 as stated fails on a report with two \<open>good\<close> findings, one \<open>poor\<close> finding
  and one failed check in the technical category and one \<open>good\<close> finding in the on-page
  category: the technical score is 66.7 where the mean is 200/3, the on-page score is 0
  where the rule gives 100, and the overall score is 66.7 where the mean of the positive
  category scores by the rule is 250/3.
\<close>

theorem category_mean_counterexample:
  "score_of (calculate_scores example_report) ''technical_seo_score'' = Some (667 / 10)
   \<and> spec_category_score (technical_seo example_report) = 200 / 3
   \<and> score_of (calculate_scores example_report) ''on_page_seo_score'' = Some 0
   \<and> spec_category_score (on_page_seo example_report) = 100
   \<and> score_of (calculate_scores example_report) ''overall_score'' = Some (667 / 10)
   \<and> spec_overall [200 / 3, 100, 0, 0, 0] = 250 / 3"
  by code_simp

text \<open>
  Whatever the report holds, the four scores that are not tallied stay at their initial 0.
\<close>

lemma untallied_scores_zero:
  "score_of (calculate_scores r) ''on_page_seo_score'' = Some 0
   \<and> score_of (calculate_scores r) ''off_page_seo_score'' = Some 0
   \<and> score_of (calculate_scores r) ''user_experience_score'' = Some 0
   \<and> score_of (calculate_scores r) ''security_performance_score'' = Some 0"
  unfolding score_of_def scores_calculate_scores by (simp add: initial_scores_def)

text \<open>
  Claim C2 at a failing input: a report whose on-page category holds one \<open>good\<close>
  finding gets the on-page score 0, where the aggregation rule gives 100, and the overall
  score 0.
\<close>

theorem on_page_score_left_at_zero:
  "score_of (calculate_scores on_page_only_report) ''on_page_seo_score'' = Some 0
   \<and> spec_category_score (on_page_seo on_page_only_report) = 100
   \<and> score_of (calculate_scores on_page_only_report) ''overall_score'' = Some 0"
  by code_simp

subsection \<open>Status polling\<close>

lemma in_cache_iff: "in_cache aid c \<longleftrightarrow> aid \<in> fst ` set c"
proof (cases "map_of c aid")
  case None
  then have "aid \<notin> fst ` set c" by (simp add: map_of_eq_None_iff)
  with None show ?thesis by (simp add: in_cache_def)
next
  case (Some r)
  then have "aid \<in> fst ` set c" by (metis map_of_eq_None_iff option.distinct(1))
  with Some show ?thesis by (simp add: in_cache_def)
qed

text \<open>
  The status query reads the keys of the cache and nothing else.
\<close>

lemma status_completed_iff_cached:
  "(audit_status c aid = Json 200 [(''status'', PStr ''completed''), (''audit_id'', PStr aid)])
     = (aid \<in> fst ` set c)
   \<and> (audit_status c aid = Json 200 [(''status'', PStr ''running''), (''audit_id'', PStr aid)])
     = (aid \<notin> fst ` set c)"
  by (simp add: audit_status_def in_cache_iff)

lemma in_cache_dict_set: "in_cache k (dict_set k v c)"
  by (induction c) (auto simp: in_cache_def)

lemma audit_website_returns:
  assumes "urlparse_netloc (normalize_url target0) = Inr dmn"
  shows "\<exists>r. audit_website w api_key target0 = Inr r"
  using assms by (cases "session_get w (normalize_url target0)") (simp_all add: audit_website_def Let_def)

lemma example_netloc: "urlparse_netloc (normalize_url ''example.com'') = Inr ''example.com''"
  by code_simp

lemma example_submit:
  "snd (start_audit py_hash example_time example_request)
     = Some \<lparr>audit_id = make_audit_id py_hash example_time ''example.com'',
             job_url = ''example.com'', job_api_key = None\<rparr>"
  by (simp add: start_audit_def json_str_def example_request_def py_strip_def is_space_def Let_def)

text \<open>
  Claim C9 at a failing input: the URL \<open>example.com\<close> is submitted twice in the same
  second, so both audits carry the same identifier. Before either thread ends the status
  query answers \<open>running\<close>; once the first thread has stored its report, the second
  audit is still running, its own report is not cached, and the status query for its
  identifier answers \<open>completed\<close>.
\<close>

theorem unfinished_audit_reported_completed:
  "audit_status
      (audit_results_cache
         (submit py_hash example_time example_request
            (submit py_hash example_time example_request empty_server)))
      (make_audit_id py_hash example_time ''example.com'')
     = Json 200 [(''status'', PStr ''running''),
                 (''audit_id'', PStr (make_audit_id py_hash example_time ''example.com''))]
   \<and> threads
       (finish example_world 0
          (submit py_hash example_time example_request
             (submit py_hash example_time example_request empty_server)))
     = [\<lparr>audit_id = make_audit_id py_hash example_time ''example.com'',
          job_url = ''example.com'', job_api_key = None\<rparr>]
   \<and> audit_status
       (audit_results_cache
          (finish example_world 0
             (submit py_hash example_time example_request
                (submit py_hash example_time example_request empty_server))))
       (make_audit_id py_hash example_time ''example.com'')
     = Json 200 [(''status'', PStr ''completed''),
                 (''audit_id'', PStr (make_audit_id py_hash example_time ''example.com''))]"
proof -
  obtain r where r: "audit_website example_world None ''example.com'' = Inr r"
    using audit_website_returns[OF example_netloc] by blast
  show ?thesis
    by (simp add: submit_def example_submit empty_server_def finish_def run_audit_def r
          audit_status_def in_cache_dict_set in_cache_def)
qed

subsection \<open>Audit identifiers\<close>

text \<open>
  Claim C8 at a failing input: two submissions of the URL \<open>example.com\<close> that arrive in
  the same second of the clock are given the same identifier, whatever the hash function.
\<close>

theorem same_second_same_identifier:
  "submitted_ids py_hash [(example_time, example_request), (example_time, example_request)]
     = [Some (make_audit_id py_hash example_time ''example.com''),
        Some (make_audit_id py_hash example_time ''example.com'')]
   \<and> \<not> distinct (submitted_ids py_hash
                    [(example_time, example_request), (example_time, example_request)])"
  by (simp add: submitted_ids_def start_audit_def json_str_def example_request_def
        py_strip_def is_space_def Let_def)


subsection \<open>The link probe\<close>

text \<open>
  Claim C3 at a failing input: on a page whose only link is a \<open>javascript:\<close> link, the
  request raises, the link is counted as broken and appears in neither list, so the count
  is 1 and the two lists are empty.
\<close>

theorem raised_request_counted_unlisted:
  "check_broken_links_probe example_world ''https://example.com'' ''example.com''
     [Tag ''a'' [(''href'', ''javascript:void(0)'')] [NavigableString ''Menu'']]
   = Inr \<lparr>internal = [], external = [], total_checked = 1, broken_count = 1\<rparr>"
  by code_simp

lemma probe_loop_lists:
  "probe_loop join head dmn links st = Inr st' \<Longrightarrow>
     internal st' = internal st
        @ map (\<lambda>(u, c, l). link_data_of u c l)
            (filter (\<lambda>(u, c, l). str_in dmn u) (status_failures join head links))
   \<and> external st' = external st
        @ map (\<lambda>(u, c, l). link_data_of u c l)
            (filter (\<lambda>(u, c, l). \<not> str_in dmn u) (status_failures join head links))"
proof (induction links arbitrary: st)
  case Nil
  then show ?case by simp
next
  case (Cons link links)
  show ?case
  proof (cases "tag_get link ''href''")
    case None
    with Cons show ?thesis by simp
  next
    case (Some href)
    show ?thesis
    proof (cases "href = [] \<or> startswith_any href [''#'', ''mailto:'', ''tel:'']")
      case True
      with Cons Some show ?thesis by simp
    next
      case False
      show ?thesis
      proof (cases "join href")
        case (Inl e)
        with Cons.prems Some False show ?thesis by simp
      next
        case (Inr full_url)
        show ?thesis
        proof (cases "head full_url")
          case (Inl e)
          with Cons.prems Some False Inr
          have "probe_loop join head dmn links
                  (st\<lparr>total_checked := total_checked st + 1,
                      broken_count := broken_count st + 1\<rparr>) = Inr st'"
            by (simp add: Let_def)
          from Cons.IH[OF this] Some False Inr Inl show ?thesis by simp
        next
          case (Inr code)
          note code = this
          show ?thesis
          proof (cases "400 \<le> code")
            case True
            with Cons.prems Some False \<open>join href = Inr full_url\<close> code
            have "probe_loop join head dmn links
                    (record_broken dmn full_url code link
                       (st\<lparr>total_checked := total_checked st + 1\<rparr>)) = Inr st'"
              by (simp add: Let_def)
            from Cons.IH[OF this] Some False \<open>join href = Inr full_url\<close> code True
            show ?thesis by (simp add: record_broken_def Let_def)
          next
            case F: False
            with Cons.prems Some False \<open>join href = Inr full_url\<close> code
            have "probe_loop join head dmn links
                    (st\<lparr>total_checked := total_checked st + 1\<rparr>) = Inr st'"
              by (simp add: Let_def)
            from Cons.IH[OF this] Some False \<open>join href = Inr full_url\<close> code F
            show ?thesis by simp
          qed
        qed
      qed
    qed
  qed
qed

text \<open>
  Claim C7, as the code has it. For every link of the sample whose request is answered
  with a status of 400 or more, the link is listed as internal exactly when the audited
  host name occurs as a substring of its resolved URL, and as external otherwise: the
  internal list holds those links, in order, whose URL contains the name, the external
  list the others.
\<close>

theorem classification_by_substring:
  assumes "check_broken_links_probe w target dmn sp = Inr st"
  shows "internal st =
           map (\<lambda>(u, c, l). link_data_of u c l)
             (filter (\<lambda>(u, c, l). str_in dmn u)
                (status_failures (urljoin w target) (session_head w) (take 20 (anchors sp))))
       \<and> external st =
           map (\<lambda>(u, c, l). link_data_of u c l)
             (filter (\<lambda>(u, c, l). \<not> str_in dmn u)
                (status_failures (urljoin w target) (session_head w) (take 20 (anchors sp))))"
  using probe_loop_lists[OF assms[unfolded check_broken_links_probe_def]]
  by (simp add: empty_probe_def)

text \<open>
  The classification on the example page, whose sample holds one such link.
\<close>

theorem classification_by_substring_witness:
  "check_broken_links_probe example_world ''https://example.com'' ''example.com'' example_page
     = Inr \<lparr>internal =
               [link_data_of ''https://evil.org/?u=example.com'' 404
                  (Tag ''a'' [(''href'', ''https://evil.org/?u=example.com'')]
                     [NavigableString ''Partner''])],
             external = [], total_checked = 2, broken_count = 2\<rparr>
   \<and> map (\<lambda>(u, c, l). link_data_of u c l)
        (filter (\<lambda>(u, c, l). str_in ''example.com'' u)
           (status_failures (urljoin example_world ''https://example.com'')
              (session_head example_world) (take 20 (anchors example_page))))
     = [link_data_of ''https://evil.org/?u=example.com'' 404
          (Tag ''a'' [(''href'', ''https://evil.org/?u=example.com'')]
             [NavigableString ''Partner''])]"
proof -
  have h: "check_broken_links_probe example_world ''https://example.com'' ''example.com''
             example_page
     = Inr \<lparr>internal =
               [link_data_of ''https://evil.org/?u=example.com'' 404
                  (Tag ''a'' [(''href'', ''https://evil.org/?u=example.com'')]
                     [NavigableString ''Partner''])],
             external = [], total_checked = 2, broken_count = 2\<rparr>"
    by code_simp
  from classification_by_substring[OF h] h show ?thesis by simp
qed

text \<open>
  Claim C7 as stated fails: the link to \<open>https://evil.org/?u=example.com\<close>, answered
  with 404, is listed as internal although its host is \<open>evil.org\<close> and the audited host
  is \<open>example.com\<close>.
\<close>

theorem host_match_counterexample:
  "map_sum id internal
     (check_broken_links_probe example_world ''https://example.com'' ''example.com'' example_page)
     = Inr [link_data_of ''https://evil.org/?u=example.com'' 404
              (Tag ''a'' [(''href'', ''https://evil.org/?u=example.com'')]
                 [NavigableString ''Partner''])]
   \<and> urlparse_netloc ''https://evil.org/?u=example.com'' = Inr ''evil.org''
   \<and> urlparse_netloc (normalize_url ''example.com'') = Inr ''example.com''"
  by code_simp

subsection \<open>Failure isolation\<close>








subsection \<open>Fetch failure\<close>

text \<open>
  Claim C5, as the code has it. For every URL whose host part parses, so that the fetch
  is reached, and whose fetch raises, \<open>audit_website\<close> returns a report rather than
  raising; the report carries the text of the exception under \<open>error\<close>, and no module
  has run: every category is empty, as is the page-speed entry, and the report has no
  Scores block.
\<close>

theorem fetch_failure_empty_report:
  assumes "urlparse_netloc (normalize_url target0) = Inr dmn"
      and "session_get w (normalize_url target0) = Inl msg"
  shows "audit_website w api_key target0 =
     Inr \<lparr>url = normalize_url target0, domain = dmn, audit_timestamp = now_isoformat w,
          technical_seo = [], on_page_seo = [], off_page_seo = [], user_experience = [],
          security_performance = [], pagespeed_insights = [], scores = None,
          error = Some msg\<rparr>"
  using assms by (simp add: audit_website_def initial_report_def Let_def)

text \<open>
  The host \<open>down.example\<close> refuses the connection in the example world.
\<close>

theorem fetch_failure_empty_report_witness:
  "urlparse_netloc (normalize_url ''down.example'') = Inr ''down.example''
   \<and> session_get example_world (normalize_url ''down.example'') = Inl ''Connection refused''
   \<and> audit_website example_world None ''down.example'' =
     Inr \<lparr>url = normalize_url ''down.example'', domain = ''down.example'',
          audit_timestamp = now_isoformat example_world,
          technical_seo = [], on_page_seo = [], off_page_seo = [], user_experience = [],
          security_performance = [], pagespeed_insights = [], scores = None,
          error = Some ''Connection refused''\<rparr>"
proof -
  have h1: "urlparse_netloc (normalize_url ''down.example'') = Inr ''down.example''"
    by code_simp
  have h2: "session_get example_world (normalize_url ''down.example'') = Inl ''Connection refused''"
    by code_simp
  from fetch_failure_empty_report[OF h1 h2, of None] h1 h2 show ?thesis by simp
qed

text \<open>
  Claim C5 as stated fails: after the refused connection every category of the returned
  report is empty, so no analyzer has contributed a finding of any status.
\<close>

theorem fetch_failure_counterexample:
  "audit_website example_world None ''down.example'' =
     Inr \<lparr>url = ''https://down.example'', domain = ''down.example'',
          audit_timestamp = ''2024-01-01T12:00:00'',
          technical_seo = [], on_page_seo = [], off_page_seo = [], user_experience = [],
          security_performance = [], pagespeed_insights = [], scores = None,
          error = Some ''Connection refused''\<rparr>"
  by code_simp

subsection \<open>The shared document\<close>

text \<open>
  Claim C6 at a failing input: on the example page the responsive-design check alone
  finds one media query and reports \<open>good\<close>; run on the document that the content
  analysis leaves, which differs from the page, it finds none and reports
  \<open>needs_improvement\<close>, and this is what the pipeline reports.
\<close>

theorem content_analysis_hides_media_queries:
  "dict_get (check_responsive_design example_page) ''css_media_queries_found'' = Some (PInt 1)
   \<and> dict_get (check_responsive_design example_page) ''status'' = Some (PStr ''good'')
   \<and> dict_get (check_responsive_design (snd (analyze_content example_page)))
        ''css_media_queries_found'' = Some (PInt 0)
   \<and> dict_get (check_responsive_design (snd (analyze_content example_page))) ''status''
        = Some (PStr ''needs_improvement'')
   \<and> snd (analyze_content example_page) \<noteq> example_page
   \<and> map_sum id (\<lambda>r. finding_field (user_experience r) ''responsive_design'' ''status'')
        (audit_website example_world None ''example.com'')
      = Inr (Some (PStr ''needs_improvement''))"
  by code_simp

subsection \<open>Structured data\<close>

lemma find_all_json_ld:
  "find_all (\<lambda>n. named ''script'' n \<and> attr_is ''type'' ''application/ld+json'' n) sp
      = filter (\<lambda>n. tag_name n = Some ''script''
                  \<and> tag_get n ''type'' = Some ''application/ld+json'') (soup_descendants sp)"
  unfolding find_all_def named_def attr_is_def by (rule filter_cong) auto

lemma find_all_has_attr:
  "find_all (has_attr k) sp
      = filter (\<lambda>n. tag_name n \<noteq> None \<and> tag_get n k \<noteq> None) (soup_descendants sp)"
  unfolding find_all_def has_attr_def by (rule filter_cong) (auto split: option.splits)

lemma no_sample_when_nothing_parses:
  "concat (map (json_ld_entry (\<lambda>s. Inl e)) xs) = []"
  by (simp add: json_ld_entry_def split: option.splits)

text \<open>
  Claim C10. For every document and every JSON parser, \<open>total_schemas\<close> is the number
  of JSON-LD script tags plus the number of tags with an \<open>itemtype\<close> attribute plus the
  number of tags with a \<open>property\<close> attribute, whether or not the blocks parse; the
  status is \<open>good\<close> exactly when that total is positive; the cap of 10 applies to the
  reported sample of \<open>property\<close> values only; and a document with a JSON-LD block none
  of which parses has an empty JSON-LD sample and still the status \<open>good\<close>.
\<close>

theorem total_schemas_counts_every_block:
  "dict_get (analyze_structured_data loads sp) ''total_schemas'' =
     Some (PInt (int
       (length (filter (\<lambda>n. tag_name n = Some ''script''
                           \<and> tag_get n ''type'' = Some ''application/ld+json'')
                  (soup_descendants sp))
        + length (filter (\<lambda>n. tag_name n \<noteq> None \<and> tag_get n ''itemtype'' \<noteq> None)
                    (soup_descendants sp))
        + length (filter (\<lambda>n. tag_name n \<noteq> None \<and> tag_get n ''property'' \<noteq> None)
                    (soup_descendants sp)))))
   \<and> (dict_get (analyze_structured_data loads sp) ''status'' = Some (PStr ''good''))
      = (0 < length (filter (\<lambda>n. tag_name n = Some ''script''
                           \<and> tag_get n ''type'' = Some ''application/ld+json'')
                  (soup_descendants sp))
        + length (filter (\<lambda>n. tag_name n \<noteq> None \<and> tag_get n ''itemtype'' \<noteq> None)
                    (soup_descendants sp))
        + length (filter (\<lambda>n. tag_name n \<noteq> None \<and> tag_get n ''property'' \<noteq> None)
                    (soup_descendants sp)))
   \<and> dict_get (analyze_structured_data loads sp) ''rdfa_properties'' =
       Some (PList (map (attr_value ''property'')
          (take 10 (filter (\<lambda>n. tag_name n \<noteq> None \<and> tag_get n ''property'' \<noteq> None)
                      (soup_descendants sp)))))
   \<and> (filter (\<lambda>n. tag_name n = Some ''script''
                  \<and> tag_get n ''type'' = Some ''application/ld+json'') (soup_descendants sp) \<noteq> []
      \<longrightarrow> dict_get (analyze_structured_data (\<lambda>s. Inl e) sp) ''json_ld_scripts'' = Some (PList [])
        \<and> dict_get (analyze_structured_data (\<lambda>s. Inl e) sp) ''status'' = Some (PStr ''good''))"
proof -
  define a where "a = filter (\<lambda>n. tag_name n = Some ''script''
                  \<and> tag_get n ''type'' = Some ''application/ld+json'') (soup_descendants sp)"
  define b where "b = filter (\<lambda>n. tag_name n \<noteq> None \<and> tag_get n ''itemtype'' \<noteq> None)
                    (soup_descendants sp)"
  define c where "c = filter (\<lambda>n. tag_name n \<noteq> None \<and> tag_get n ''property'' \<noteq> None)
                    (soup_descendants sp)"
  have eq: "\<And>l. analyze_structured_data l sp =
      [(''json_ld_scripts'', PList (concat (map (json_ld_entry l) a))),
       (''microdata_items'', PList (map (attr_value ''itemtype'') b)),
       (''rdfa_properties'', PList (map (attr_value ''property'') (take 10 c))),
       (''total_schemas'', PInt (int (length a + length b + length c))),
       (''status'', PStr (if 0 < length a + length b + length c then ''good''
                          else ''needs_improvement'')),
       (''recommendation'',
          PStr (if length a + length b + length c = 0 then ''Add structured data markup''
                else ''Structured data found''))]"
    unfolding analyze_structured_data_def Let_def find_all_json_ld find_all_has_attr a_def b_def c_def
    by (rule refl)
  have 1: "dict_get (analyze_structured_data loads sp) ''total_schemas''
      = Some (PInt (int (length a + length b + length c)))"
    unfolding eq dict_get_def by simp
  have 2: "(dict_get (analyze_structured_data loads sp) ''status'' = Some (PStr ''good''))
      = (0 < length a + length b + length c)"
    unfolding eq dict_get_def by simp
  have 3: "dict_get (analyze_structured_data loads sp) ''rdfa_properties''
      = Some (PList (map (attr_value ''property'') (take 10 c)))"
    unfolding eq dict_get_def by simp
  have 4: "a \<noteq> [] \<longrightarrow>
      dict_get (analyze_structured_data (\<lambda>s. Inl e) sp) ''json_ld_scripts'' = Some (PList [])
      \<and> dict_get (analyze_structured_data (\<lambda>s. Inl e) sp) ''status'' = Some (PStr ''good'')"
    unfolding eq dict_get_def no_sample_when_nothing_parses by simp
  from 1 2 3 4 show ?thesis unfolding a_def b_def c_def by (intro conjI)
qed

text \<open>
  The example page holds one JSON-LD block, which is no JSON.
\<close>

theorem total_schemas_counts_every_block_witness:
  "filter (\<lambda>n. tag_name n = Some ''script'' \<and> tag_get n ''type'' = Some ''application/ld+json'')
     (soup_descendants example_page)
     = [Tag ''script'' [(''type'', ''application/ld+json'')] [NavigableString ''{not json'']]
   \<and> dict_get (analyze_structured_data (\<lambda>s. Inl ''Expecting property name'') example_page)
        ''json_ld_scripts'' = Some (PList [])
   \<and> dict_get (analyze_structured_data (\<lambda>s. Inl ''Expecting property name'') example_page)
        ''status'' = Some (PStr ''good'')"
proof -
  have h: "filter (\<lambda>n. tag_name n = Some ''script'' \<and> tag_get n ''type'' = Some ''application/ld+json'')
     (soup_descendants example_page)
     = [Tag ''script'' [(''type'', ''application/ld+json'')] [NavigableString ''{not json'']]"
    by code_simp
  then have ne: "filter (\<lambda>n. tag_name n = Some ''script'' \<and> tag_get n ''type'' = Some ''application/ld+json'')
     (soup_descendants example_page) \<noteq> []" by simp
  from total_schemas_counts_every_block[of "\<lambda>s. Inl ''Expecting property name''" example_page
      "''Expecting property name''"] ne
  have "dict_get (analyze_structured_data (\<lambda>s. Inl ''Expecting property name'') example_page)
        ''json_ld_scripts'' = Some (PList [])
   \<and> dict_get (analyze_structured_data (\<lambda>s. Inl ''Expecting property name'') example_page)
        ''status'' = Some (PStr ''good'')" by blast
  with h show ?thesis by (intro conjI) blast+
qed

end
